theory Spec2Isabelle
  imports Complex_Main "HOL-Library.Word"
begin

section \<open>The nutrition analyzer view (src/src/App.js)\<close>

text \<open>
  The repository is one React component, \<open>NutritionAnalyzer\<close>. Its logic is the two
  asynchronous handlers \<open>analyzeFood\<close> and \<open>handleQuickAnalysis\<close>, the three score
  helpers and the inline status expression of the nutrient table. This theory embeds
  them together with the parts of the JavaScript platform they call
  (\<open>String.prototype.trim\<close>, \<open>encodeURIComponent\<close>, \<open>toLowerCase\<close>, \<open>fetch\<close>).
\<close>

subsection \<open>JavaScript strings\<close>

text \<open>
  A JavaScript string is a sequence of 16-bit code units. \<open>js\<close> writes an ASCII literal
  of the source as such a sequence.
\<close>

type_synonym code_unit = "16 word"
type_synonym jsstring = "code_unit list"

definition js :: "string \<Rightarrow> jsstring" where
  "js s = map (\<lambda>c. of_nat (of_char c)) s"

text \<open>
  \<open>trim\<close> removes leading and trailing WhiteSpace and LineTerminator code points
  (ECMAScript: TAB, VT, FF, SP, NBSP, ZWNBSP, the Zs category, LF, CR, LS, PS). All of
  them lie in the basic plane, so the test is on one code unit.
\<close>

definition is_white :: "code_unit \<Rightarrow> bool" where
  "is_white c =
     (c \<in> {0x9, 0xA, 0xB, 0xC, 0xD, 0x20, 0xA0, 0x1680, 0x2028, 0x2029, 0x202F,
           0x205F, 0x3000, 0xFEFF}
      \<or> (0x2000 \<le> c \<and> c \<le> 0x200A))"

definition trim :: "jsstring \<Rightarrow> jsstring" where
  "trim s = rev (dropWhile is_white (rev (dropWhile is_white s)))"

text \<open>
  \<open>toLowerCase\<close>: on a string of ASCII code units the Unicode default case conversion
  maps \<open>A\<close>..\<open>Z\<close> to \<open>a\<close>..\<open>z\<close> and leaves the rest. For any other string the result
  is read from the Unicode character database, which is part of the platform and is
  taken as a parameter (\<open>lower_unicode\<close> below).
\<close>

definition ascii_lower :: "code_unit \<Rightarrow> code_unit" where
  "ascii_lower c = (if 0x41 \<le> c \<and> c \<le> 0x5A then c + 0x20 else c)"

definition is_ascii :: "jsstring \<Rightarrow> bool" where
  "is_ascii s = list_all (\<lambda>c. c < 0x80) s"

text \<open>
  \<open>encodeURIComponent\<close> (ECMAScript \<open>Encode\<close>): letters, digits and \<open>- _ . ! ~ * ' ( )\<close>
  are copied; any other code point is written as the percent-escaped octets of its
  UTF-8 encoding; an unpaired surrogate throws a URIError (\<open>None\<close> here).
\<close>

definition uri_unescaped :: "code_unit \<Rightarrow> bool" where
  "uri_unescaped c =
     ((0x41 \<le> c \<and> c \<le> 0x5A) \<or> (0x61 \<le> c \<and> c \<le> 0x7A) \<or> (0x30 \<le> c \<and> c \<le> 0x39)
      \<or> c \<in> {0x2D, 0x5F, 0x2E, 0x21, 0x7E, 0x2A, 0x27, 0x28, 0x29})"

definition is_lead :: "code_unit \<Rightarrow> bool" where
  "is_lead c = (0xD800 \<le> c \<and> c \<le> 0xDBFF)"

definition is_trail :: "code_unit \<Rightarrow> bool" where
  "is_trail c = (0xDC00 \<le> c \<and> c \<le> 0xDFFF)"

definition surrogate_pair :: "code_unit \<Rightarrow> code_unit \<Rightarrow> nat" where
  "surrogate_pair c d = (unat c - 0xD800) * 0x400 + (unat d - 0xDC00) + 0x10000"

definition utf8 :: "nat \<Rightarrow> nat list" where
  "utf8 n =
     (if n < 0x80 then [n]
      else if n < 0x800 then [0xC0 + n div 0x40, 0x80 + n mod 0x40]
      else if n < 0x10000 then
        [0xE0 + n div 0x1000, 0x80 + (n div 0x40) mod 0x40, 0x80 + n mod 0x40]
      else
        [0xF0 + n div 0x40000, 0x80 + (n div 0x1000) mod 0x40,
         0x80 + (n div 0x40) mod 0x40, 0x80 + n mod 0x40])"

definition hex_digit :: "nat \<Rightarrow> code_unit" where
  "hex_digit n = (if n < 10 then of_nat (0x30 + n) else of_nat (0x37 + n))"

definition percent :: "nat \<Rightarrow> jsstring" where
  "percent b = [0x25, hex_digit (b div 16), hex_digit (b mod 16)]"

definition percent_utf8 :: "nat \<Rightarrow> jsstring" where
  "percent_utf8 n = concat (map percent (utf8 n))"

fun encodeURIComponent :: "jsstring \<Rightarrow> jsstring option" where
  "encodeURIComponent [] = Some []"
| "encodeURIComponent (c # cs) =
     (if uri_unescaped c then map_option ((#) c) (encodeURIComponent cs)
      else if is_trail c then None
      else if is_lead c then
        (case cs of
           [] \<Rightarrow> None
         | d # ds \<Rightarrow>
             if is_trail d
             then map_option ((@) (percent_utf8 (surrogate_pair c d))) (encodeURIComponent ds)
             else None)
      else map_option ((@) (percent_utf8 (unat c))) (encodeURIComponent cs))"

subsection \<open>JavaScript numbers and parsed JSON\<close>

text \<open>
  A number is a double: NaN, an infinity, or a finite value, which is a rational.
  \<open>js_ge n k\<close> and \<open>js_gt n k\<close> are \<open>n >= k\<close> and \<open>n > k\<close> for a finite literal \<open>k\<close>;
  every comparison with NaN is false.
\<close>

datatype jsnum = NaN | NegInf | Fin rat | PosInf

fun js_ge :: "jsnum \<Rightarrow> rat \<Rightarrow> bool" where
  "js_ge NaN k = False"
| "js_ge NegInf k = False"
| "js_ge (Fin q) k = (k \<le> q)"
| "js_ge PosInf k = True"

fun js_gt :: "jsnum \<Rightarrow> rat \<Rightarrow> bool" where
  "js_gt NaN k = False"
| "js_gt NegInf k = False"
| "js_gt (Fin q) k = (k < q)"
| "js_gt PosInf k = True"

text \<open>
  The value \<open>response.json()\<close> resolves to. An object keeps its members in the order
  of the text; \<open>JSON.parse\<close> lets the last of two equal keys win.
\<close>

datatype json =
    JNull
  | JBool bool
  | JNum jsnum
  | JStr jsstring
  | JArr "json list"
  | JObj "(jsstring \<times> json) list"

text \<open>Truthiness, as \<open>!x\<close> tests it; \<open>None\<close> is \<open>undefined\<close>.\<close>

fun truthy :: "json \<Rightarrow> bool" where
  "truthy JNull = False"
| "truthy (JBool b) = b"
| "truthy (JNum n) = (n \<noteq> NaN \<and> n \<noteq> Fin 0)"
| "truthy (JStr s) = (s \<noteq> [])"
| "truthy (JArr xs) = True"
| "truthy (JObj kvs) = True"

fun truthy_opt :: "json option \<Rightarrow> bool" where
  "truthy_opt None = False"
| "truthy_opt (Some x) = truthy x"

text \<open>
  The property read \<open>data.detailed_breakdown\<close> on a truthy value: an object gives its
  member or \<open>undefined\<close>; an array, a string, a number and \<open>true\<close> have no such
  property.
\<close>

fun detailed_breakdown :: "json \<Rightarrow> json option" where
  "detailed_breakdown (JObj kvs) = map_of (rev kvs) (js ''detailed_breakdown'')"
| "detailed_breakdown x = None"

subsection \<open>The score helpers and the nutrient status\<close>

definition getScoreColor :: "jsnum \<Rightarrow> jsstring" where
  "getScoreColor score =
     (if js_ge score 80 then js ''text-green-500''
      else if js_ge score 60 then js ''text-yellow-500''
      else if js_ge score 40 then js ''text-orange-500''
      else js ''text-red-500'')"

text \<open>The emoji literals are the code units the source file holds.\<close>

definition getScoreEmoji :: "jsnum \<Rightarrow> jsstring" where
  "getScoreEmoji score =
     (if js_ge score 80 then [0xF8FF, 0xFC, 0xFC, 0xA2]
      else if js_ge score 60 then [0xF8FF, 0xFC, 0xFC, 0xB0]
      else if js_ge score 40 then [0xF8FF, 0xFC, 0xFC, 0x2020]
      else [0xF8FF, 0xFC, 0xEE, 0xA5])"

definition getScoreDescription :: "jsnum \<Rightarrow> jsstring" where
  "getScoreDescription score =
     (if js_ge score 80 then js ''Excellent Choice''
      else if js_ge score 60 then js ''Good Option''
      else if js_ge score 40 then js ''Fair Choice''
      else js ''Consider Alternatives'')"

text \<open>
  The nutrient table computes the status of a row inline (the label and the badge
  class, both from \<open>nutrient.value\<close>).
\<close>

definition nutrient_status_label :: "jsnum \<Rightarrow> jsstring" where
  "nutrient_status_label amount =
     (if js_gt amount 10 then js ''High'' else if js_gt amount 5 then js ''Good'' else js ''Low'')"

definition nutrient_status_class :: "jsnum \<Rightarrow> jsstring" where
  "nutrient_status_class amount =
     (if js_gt amount 10 then js ''bg-green-100 text-green-800''
      else if js_gt amount 5 then js ''bg-yellow-100 text-yellow-800''
      else js ''bg-blue-100 text-blue-800'')"

subsection \<open>The platform: exceptions, fetch\<close>

datatype exn_kind = Error | TypeError | URIError | SyntaxError | OtherError

datatype exn = Exn (kind: exn_kind) (message: jsstring)

text \<open>
  \<open>response.json()\<close> stays pending, rejects (the body is not JSON), or resolves to
  the parsed value. \<open>response.ok\<close> is true for a status from 200 to 299.
\<close>

datatype body_result = BodyPending | BodyRejected exn | Parsed json

record response =
  status :: nat
  body :: body_result

definition ok :: "response \<Rightarrow> bool" where
  "ok r = (200 \<le> status r \<and> status r \<le> 299)"

text \<open>\<open>fetch(url)\<close> stays pending, rejects (transport failure), or resolves.\<close>

datatype fetch_result = Pending | Rejected exn | Resolved response

text \<open>
  What the handlers take from outside the repository: the network behind \<open>fetch\<close>,
  the message the engine gives its URIError, and the lower-casing of strings that are
  not ASCII.
\<close>

record env =
  fetch :: "jsstring \<Rightarrow> fetch_result"
  uri_error_message :: jsstring
  lower_unicode :: "jsstring \<Rightarrow> jsstring"

definition toLowerCase :: "env \<Rightarrow> jsstring \<Rightarrow> jsstring" where
  "toLowerCase e s = (if is_ascii s then map ascii_lower s else lower_unicode e s)"

subsection \<open>The component state and the effects of a handler\<close>

record view =
  foodItem :: jsstring
  loading :: bool
  nutritionData :: "json option"
  error :: jsstring
  darkMode :: bool

text \<open>
  A handler run is the sequence of its effects, in program order: the state setters,
  the call of \<open>fetch\<close> and \<open>console.error\<close>. \<open>run\<close> applies the setters to a state.
\<close>

datatype event =
    SetFoodItem jsstring
  | SetLoading bool
  | SetNutritionData json
  | SetError jsstring
  | Fetch jsstring
  | ConsoleError exn

fun apply_event :: "event \<Rightarrow> view \<Rightarrow> view" where
  "apply_event (SetFoodItem s) v = v\<lparr>foodItem := s\<rparr>"
| "apply_event (SetLoading b) v = v\<lparr>loading := b\<rparr>"
| "apply_event (SetNutritionData d) v = v\<lparr>nutritionData := Some d\<rparr>"
| "apply_event (SetError m) v = v\<lparr>error := m\<rparr>"
| "apply_event (Fetch u) v = v"
| "apply_event (ConsoleError x) v = v"

definition run :: "event list \<Rightarrow> view \<Rightarrow> view" where
  "run evs v = fold apply_event evs v"

text \<open>
  How a \<open>try\<close> block ends: it ran to its end, it threw, or it is suspended for ever on
  a promise that never settles.
\<close>

datatype completion = Returned | Threw exn | Suspended

text \<open>
  The \<open>catch\<close> and \<open>finally\<close> blocks, which are the same text in both handlers:
  \<open>console.error\<close>, \<open>setError(err.message || '...')\<close>, then \<open>setLoading(false)\<close>.
\<close>

definition catch_finally :: "event list \<times> completion \<Rightarrow> event list" where
  "catch_finally r =
     (case r of
        (evs, Returned) \<Rightarrow> evs @ [SetLoading False]
      | (evs, Threw err) \<Rightarrow>
          evs @
          [ConsoleError err,
           SetError (if message err \<noteq> [] then message err
                     else js ''Failed to analyze food. Please try again.''),
           SetLoading False]
      | (evs, Suspended) \<Rightarrow> evs)"

subsection \<open>analyzeFood\<close>

definition analyzeFood_try :: "env \<Rightarrow> view \<Rightarrow> event list \<times> completion" where
  "analyzeFood_try e v =
     (case encodeURIComponent (trim (foodItem v)) of
        None \<Rightarrow> ([], Threw (Exn URIError (uri_error_message e)))
      | Some q \<Rightarrow>
          (let url = js ''/api/analyze/'' @ q in
           case fetch e url of
             Pending \<Rightarrow> ([Fetch url], Suspended)
           | Rejected x \<Rightarrow> ([Fetch url], Threw x)
           | Resolved response \<Rightarrow>
               if \<not> ok response then
                 ([Fetch url],
                  Threw (Exn Error
                    (js ''Failed to analyze '' @ foodItem v @ js ''. Please try again.'')))
               else
                 (case body response of
                    BodyPending \<Rightarrow> ([Fetch url], Suspended)
                  | BodyRejected x \<Rightarrow> ([Fetch url], Threw x)
                  | Parsed data \<Rightarrow>
                      if \<not> truthy data \<or> \<not> truthy_opt (detailed_breakdown data) then
                        ([Fetch url], Threw (Exn Error (js ''Invalid response from server'')))
                      else ([Fetch url, SetNutritionData data], Returned))))"

definition analyzeFood :: "env \<Rightarrow> view \<Rightarrow> event list" where
  "analyzeFood e v =
     (if trim (foodItem v) = [] then [SetError (js ''Please enter a food item'')]
      else [SetLoading True, SetError []] @ catch_finally (analyzeFood_try e v))"

subsection \<open>handleQuickAnalysis\<close>

definition quickSuggestions :: "jsstring list" where
  "quickSuggestions =
     map js [''Banana'', ''Avocado'', ''Quinoa'', ''Salmon'',
             ''Spinach'', ''Blueberries'', ''Almonds'', ''Sweet Potato'']"

definition handleQuickAnalysis_try :: "env \<Rightarrow> jsstring \<Rightarrow> event list \<times> completion" where
  "handleQuickAnalysis_try e food =
     (case encodeURIComponent (trim food) of
        None \<Rightarrow> ([], Threw (Exn URIError (uri_error_message e)))
      | Some q \<Rightarrow>
          (let url = js ''http://localhost:8000/api/analyze/'' @ q in
           case fetch e url of
             Pending \<Rightarrow> ([Fetch url], Suspended)
           | Rejected x \<Rightarrow> ([Fetch url], Threw x)
           | Resolved response \<Rightarrow>
               if \<not> ok response then
                 ([Fetch url],
                  Threw (Exn Error
                    (js ''Failed to analyze '' @ food @ js ''. Please try again.'')))
               else
                 (case body response of
                    BodyPending \<Rightarrow> ([Fetch url], Suspended)
                  | BodyRejected x \<Rightarrow> ([Fetch url], Threw x)
                  | Parsed data \<Rightarrow>
                      if \<not> truthy data \<or> \<not> truthy_opt (detailed_breakdown data) then
                        ([Fetch url], Threw (Exn Error (js ''Invalid response from server'')))
                      else ([Fetch url, SetNutritionData data], Returned))))"

definition handleQuickAnalysis :: "env \<Rightarrow> jsstring \<Rightarrow> event list" where
  "handleQuickAnalysis e food =
     [SetError [], SetFoodItem (toLowerCase e food), SetLoading True]
     @ catch_finally (handleQuickAnalysis_try e food)"

subsection \<open>Predicates on runs\<close>

text \<open>
  \<open>is_fetch\<close> picks the network calls of a run, \<open>is_handling\<close> the effects of the
  code after the response (storing the result, or the \<open>catch\<close> block). A fetch
  settles when neither it nor the body read that follows a success status stays
  pending; it has \<open>failed\<close> when it rejected, or resolved with a status outside
  200..299, a body that is not JSON, or a value that the shape test of the handlers
  refuses. \<open>well_formed\<close> says that a string has no unpaired surrogate.
\<close>

fun is_fetch :: "event \<Rightarrow> bool" where
  "is_fetch (Fetch u) = True"
| "is_fetch ev = False"

fun is_handling :: "event \<Rightarrow> bool" where
  "is_handling (SetNutritionData d) = True"
| "is_handling (ConsoleError x) = True"
| "is_handling (SetError m) = True"
| "is_handling ev = False"

fun settles :: "fetch_result \<Rightarrow> bool" where
  "settles Pending = False"
| "settles (Rejected x) = True"
| "settles (Resolved r) = (\<not> ok r \<or> body r \<noteq> BodyPending)"

fun well_formed :: "jsstring \<Rightarrow> bool" where
  "well_formed [] = True"
| "well_formed (c # cs) =
     (if is_trail c then False
      else if is_lead c then
        (case cs of [] \<Rightarrow> False | d # ds \<Rightarrow> is_trail d \<and> well_formed ds)
      else well_formed cs)"


fun failed :: "fetch_result \<Rightarrow> bool" where
  "failed Pending = False"
| "failed (Rejected x) = True"
| "failed (Resolved r) =
     (\<not> ok r \<or>
      (case body r of
         BodyPending \<Rightarrow> False
       | BodyRejected x \<Rightarrow> True
       | Parsed d \<Rightarrow> \<not> truthy d \<or> \<not> truthy_opt (detailed_breakdown d)))"


subsection \<open>Initial state and example services\<close>

text \<open>
  \<open>initial_view\<close> holds the values of the \<open>useState\<close> calls. \<open>banana\<close> is the response of
  the end-to-end scenario of the specification. \<open>service st b\<close> is a backend that
  answers every request with status \<open>st\<close> and body \<open>b\<close>; \<open>offline m\<close> is a network
  where every request fails with message \<open>m\<close>.
\<close>

definition initial_view :: view where
  "initial_view =
     \<lparr>foodItem = [], loading = False, nutritionData = None, error = [], darkMode = False\<rparr>"

definition banana :: json where
  "banana =
     JObj [(js ''food'', JStr (js ''banana'')),
           (js ''detailed_breakdown'',
              JObj [(js ''calories'', JNum (Fin 89)), (js ''protein'', JNum (Fin (11 / 10))),
                    (js ''carbs'', JNum (Fin 23)), (js ''fiber'', JNum (Fin (26 / 10))),
                    (js ''fat'', JNum (Fin (3 / 10))), (js ''sugar'', JNum (Fin 12))]),
           (js ''health_score'', JNum (Fin 75)),
           (js ''health_benefits'', JArr [JStr (js ''Rich in potassium'')]),
           (js ''meal_suggestions'', JArr [JStr (js ''Banana smoothie bowl'')])]"

definition service :: "nat \<Rightarrow> body_result \<Rightarrow> env" where
  "service st b =
     \<lparr>fetch = (\<lambda>u. Resolved \<lparr>status = st, body = b\<rparr>),
      uri_error_message = js ''URI malformed'', lower_unicode = (\<lambda>s. s)\<rparr>"

definition offline :: "jsstring \<Rightarrow> env" where
  "offline m =
     \<lparr>fetch = (\<lambda>u. Rejected (Exn TypeError m)),
      uri_error_message = js ''URI malformed'', lower_unicode = (\<lambda>s. s)\<rparr>"

section \<open>Properties\<close>

subsection \<open>Strings and runs\<close>

lemma unescaped_not_surrogate: "uri_unescaped c \<Longrightarrow> \<not> is_trail c \<and> \<not> is_lead c"
  unfolding uri_unescaped_def is_trail_def is_lead_def
  by (auto simp: word_le_nat_alt)

lemma encode_defined_iff: "(encodeURIComponent s \<noteq> None) = well_formed s"
proof (induction s rule: encodeURIComponent.induct)
  case 1
  show ?case by simp
next
  case (2 c cs)
  show ?case
  proof (cases "uri_unescaped c")
    case True
    with 2 unescaped_not_surrogate [of c] show ?thesis by simp
  next
    case False
    with 2 show ?thesis by (auto split: list.splits)
  qed
qed

lemma all_dropWhile: "(\<forall>x \<in> set (dropWhile P s). P x) = (\<forall>x \<in> set s. P x)"
proof
  assume a: "\<forall>x \<in> set (dropWhile P s). P x"
  have "dropWhile P s = []"
  proof (rule ccontr)
    assume n: "dropWhile P s \<noteq> []"
    then have "\<not> P (hd (dropWhile P s))" by (rule hd_dropWhile)
    moreover from n have "hd (dropWhile P s) \<in> set (dropWhile P s)" by simp
    ultimately show False using a by blast
  qed
  then show "\<forall>x \<in> set s. P x" by simp
next
  assume "\<forall>x \<in> set s. P x"
  then show "\<forall>x \<in> set (dropWhile P s). P x" by (auto dest: set_dropWhileD)
qed

lemma trim_Nil_iff: "(trim s = []) = (\<forall>c \<in> set s. is_white c)"
  by (simp add: trim_def all_dropWhile)

lemma run_Nil: "run [] v = v"
  by (simp add: run_def)

lemma run_Cons: "run (ev # evs) v = run evs (apply_event ev v)"
  by (simp add: run_def)

lemma run_append: "run (xs @ ys) v = run ys (run xs v)"
  by (simp add: run_def)

lemma fallback_nonempty: "js ''Failed to analyze food. Please try again.'' \<noteq> []"
  by (simp add: js_def)


subsection \<open>Score tiers\<close>

lemma score_labels_distinct:
  "distinct [js ''Excellent Choice'', js ''Good Option'', js ''Fair Choice'',
             js ''Consider Alternatives'']"
  by (simp add: js_def)

lemma score_label_range:
  "getScoreDescription n \<in>
     {js ''Excellent Choice'', js ''Good Option'', js ''Fair Choice'',
      js ''Consider Alternatives''}"
  by (simp add: getScoreDescription_def)


text \<open>
  C8. For a finite score the three score helpers agree on one of four tiers, with the
  cut points 80, 60 and 40 each belonging to the upper tier: excellent from 80 on, good
  from 60 to below 80, fair from 40 to below 60, poor below 40. For every number
  (NaN and the infinities too) the label is one of the four, and the four differ.
\<close>

theorem score_tiers:
  "(80 \<le> q \<longrightarrow>
      getScoreDescription (Fin q) = js ''Excellent Choice'' \<and>
      getScoreColor (Fin q) = js ''text-green-500'' \<and>
      getScoreEmoji (Fin q) = [0xF8FF, 0xFC, 0xFC, 0xA2]) \<and>
   (60 \<le> q \<and> q < 80 \<longrightarrow>
      getScoreDescription (Fin q) = js ''Good Option'' \<and>
      getScoreColor (Fin q) = js ''text-yellow-500'' \<and>
      getScoreEmoji (Fin q) = [0xF8FF, 0xFC, 0xFC, 0xB0]) \<and>
   (40 \<le> q \<and> q < 60 \<longrightarrow>
      getScoreDescription (Fin q) = js ''Fair Choice'' \<and>
      getScoreColor (Fin q) = js ''text-orange-500'' \<and>
      getScoreEmoji (Fin q) = [0xF8FF, 0xFC, 0xFC, 0x2020]) \<and>
   (q < 40 \<longrightarrow>
      getScoreDescription (Fin q) = js ''Consider Alternatives'' \<and>
      getScoreColor (Fin q) = js ''text-red-500'' \<and>
      getScoreEmoji (Fin q) = [0xF8FF, 0xFC, 0xEE, 0xA5]) \<and>
   getScoreDescription n \<in>
     {js ''Excellent Choice'', js ''Good Option'', js ''Fair Choice'',
      js ''Consider Alternatives''} \<and>
   distinct [js ''Excellent Choice'', js ''Good Option'', js ''Fair Choice'',
             js ''Consider Alternatives'']"
proof (intro conjI impI)
  show "getScoreDescription n \<in>
     {js ''Excellent Choice'', js ''Good Option'', js ''Fair Choice'',
      js ''Consider Alternatives''}"
    by (rule score_label_range)
  show "distinct [js ''Excellent Choice'', js ''Good Option'', js ''Fair Choice'',
             js ''Consider Alternatives'']"
    by (rule score_labels_distinct)
qed (simp_all add: getScoreDescription_def getScoreColor_def getScoreEmoji_def)

theorem score_tiers_witness:
  "getScoreDescription (Fin 80) = js ''Excellent Choice'' \<and>
   getScoreDescription (Fin (799 / 10)) = js ''Good Option'' \<and>
   getScoreDescription (Fin (2811231329897677 / 35184372088832)) = js ''Good Option'' \<and>
   getScoreDescription (Fin 60) = js ''Good Option'' \<and>
   getScoreDescription (Fin (599 / 10)) = js ''Fair Choice'' \<and>
   getScoreDescription (Fin (8430175552484147 / 140737488355328)) = js ''Fair Choice'' \<and>
   getScoreDescription (Fin 40) = js ''Fair Choice'' \<and>
   getScoreDescription (Fin (399 / 10)) = js ''Consider Alternatives'' \<and>
   getScoreDescription (Fin (5615425785377587 / 140737488355328)) = js ''Consider Alternatives''"
proof -
  have a: "getScoreDescription (Fin 80) = js ''Excellent Choice''"
    using score_tiers [of 80] by simp
  have b: "getScoreDescription (Fin (799 / 10)) = js ''Good Option''"
    using score_tiers [of "799 / 10"] by simp
  have b': "getScoreDescription (Fin (2811231329897677 / 35184372088832)) = js ''Good Option''"
    using score_tiers [of "2811231329897677 / 35184372088832"] by simp
  have c: "getScoreDescription (Fin 60) = js ''Good Option''"
    using score_tiers [of 60] by simp
  have d: "getScoreDescription (Fin (599 / 10)) = js ''Fair Choice''"
    using score_tiers [of "599 / 10"] by simp
  have d': "getScoreDescription (Fin (8430175552484147 / 140737488355328)) = js ''Fair Choice''"
    using score_tiers [of "8430175552484147 / 140737488355328"] by simp
  have e: "getScoreDescription (Fin 40) = js ''Fair Choice''"
    using score_tiers [of 40] by simp
  have f: "getScoreDescription (Fin (399 / 10)) = js ''Consider Alternatives''"
    using score_tiers [of "399 / 10"] by simp
  have f': "getScoreDescription (Fin (5615425785377587 / 140737488355328)) = js ''Consider Alternatives''"
    using score_tiers [of "5615425785377587 / 140737488355328"] by simp
  from a b b' c d d' e f f' show ?thesis by blast
qed

text \<open>
  C9. For a finite amount the status of a nutrient row is High above 10, Good above 5
  and up to 10, Low up to 5 (10 itself is Good, 5 itself is Low); the label and the
  badge class agree. For every number the label is one of the three.
\<close>

theorem nutrient_status:
  "(10 < a \<longrightarrow>
      nutrient_status_label (Fin a) = js ''High'' \<and>
      nutrient_status_class (Fin a) = js ''bg-green-100 text-green-800'') \<and>
   (5 < a \<and> a \<le> 10 \<longrightarrow>
      nutrient_status_label (Fin a) = js ''Good'' \<and>
      nutrient_status_class (Fin a) = js ''bg-yellow-100 text-yellow-800'') \<and>
   (a \<le> 5 \<longrightarrow>
      nutrient_status_label (Fin a) = js ''Low'' \<and>
      nutrient_status_class (Fin a) = js ''bg-blue-100 text-blue-800'') \<and>
   nutrient_status_label n \<in> {js ''High'', js ''Good'', js ''Low''} \<and>
   distinct [js ''High'', js ''Good'', js ''Low'']"
proof (intro conjI impI)
  show "nutrient_status_label n \<in> {js ''High'', js ''Good'', js ''Low''}"
    by (simp add: nutrient_status_label_def)
  show "distinct [js ''High'', js ''Good'', js ''Low'']"
    by (simp add: js_def)
qed (simp_all add: nutrient_status_label_def nutrient_status_class_def)

theorem nutrient_status_witness:
  "nutrient_status_label (Fin 10) = js ''Good'' \<and>
   nutrient_status_label (Fin 10) \<noteq> js ''High'' \<and>
   nutrient_status_label (Fin (101 / 10)) = js ''High'' \<and>
   nutrient_status_label (Fin (5685794529555251 / 562949953421312)) = js ''High'' \<and>
   nutrient_status_label (Fin 5) = js ''Low'' \<and>
   nutrient_status_label (Fin 5) \<noteq> js ''Good'' \<and>
   nutrient_status_label (Fin (51 / 10)) = js ''Good'' \<and>
   nutrient_status_label (Fin (2871044762448691 / 562949953421312)) = js ''Good'' \<and>
   nutrient_status_label (Fin 89) = js ''High''"
proof -
  have a: "nutrient_status_label (Fin 10) = js ''Good''"
    using nutrient_status [of 10] by simp
  have a': "nutrient_status_label (Fin 10) \<noteq> js ''High''"
    using nutrient_status [of 10 NaN] by auto
  have b: "nutrient_status_label (Fin (101 / 10)) = js ''High''"
    using nutrient_status [of "101 / 10"] by simp
  have b': "nutrient_status_label (Fin (5685794529555251 / 562949953421312)) = js ''High''"
    using nutrient_status [of "5685794529555251 / 562949953421312"] by simp
  have c: "nutrient_status_label (Fin 5) = js ''Low''"
    using nutrient_status [of 5] by simp
  have c': "nutrient_status_label (Fin 5) \<noteq> js ''Good''"
    using nutrient_status [of 5 NaN] by auto
  have d: "nutrient_status_label (Fin (51 / 10)) = js ''Good''"
    using nutrient_status [of "51 / 10"] by simp
  have d': "nutrient_status_label (Fin (2871044762448691 / 562949953421312)) = js ''Good''"
    using nutrient_status [of "2871044762448691 / 562949953421312"] by simp
  have e: "nutrient_status_label (Fin 89) = js ''High''"
    using nutrient_status [of 89] by simp
  from a a' b b' c c' d d' e show ?thesis by blast
qed


subsection \<open>Evaluated strings\<close>

lemmas string_defs = js_def trim_def is_white_def uri_unescaped_def is_lead_def is_trail_def
  surrogate_pair_def utf8_def hex_digit_def percent_def percent_utf8_def

lemma trim_Banana: "trim (js ''Banana'') = js ''Banana''"
  by (simp add: string_defs)

lemma encode_Banana: "encodeURIComponent (js ''Banana'') = Some (js ''Banana'')"
  by (simp add: string_defs)

lemma banana_shape: "truthy banana \<and> truthy_opt (detailed_breakdown banana)"
  by (simp add: banana_def js_def)

lemma trim_pizza: "trim (js ''pizza'') = js ''pizza''"
  by (simp add: string_defs)

lemma encode_pizza: "encodeURIComponent (js ''pizza'') = Some (js ''pizza'')"
  by (simp add: string_defs)

lemma pizza_nonempty: "js ''pizza'' \<noteq> []"
  by (simp add: js_def)


subsection \<open>The branches of the two handlers\<close>

lemma analyzeFood_uri_error:
  assumes "trim (foodItem v) \<noteq> []" "encodeURIComponent (trim (foodItem v)) = None"
  shows "analyzeFood e v =
    [SetLoading True, SetError [],
     ConsoleError (Exn URIError (uri_error_message e)),
     SetError (if uri_error_message e \<noteq> [] then uri_error_message e
               else js ''Failed to analyze food. Please try again.''),
     SetLoading False]"
  using assms by (simp add: analyzeFood_def analyzeFood_try_def catch_finally_def)

lemma analyzeFood_pending:
  assumes "trim (foodItem v) \<noteq> []" "encodeURIComponent (trim (foodItem v)) = Some q"
    "fetch e (js ''/api/analyze/'' @ q) = Pending"
  shows "analyzeFood e v = [SetLoading True, SetError [], Fetch (js ''/api/analyze/'' @ q)]"
  using assms by (simp add: analyzeFood_def analyzeFood_try_def catch_finally_def)

lemma analyzeFood_rejected:
  assumes "trim (foodItem v) \<noteq> []" "encodeURIComponent (trim (foodItem v)) = Some q"
    "fetch e (js ''/api/analyze/'' @ q) = Rejected x"
  shows "analyzeFood e v =
    [SetLoading True, SetError [], Fetch (js ''/api/analyze/'' @ q), ConsoleError x,
     SetError (if message x \<noteq> [] then message x
               else js ''Failed to analyze food. Please try again.''),
     SetLoading False]"
  using assms by (simp add: analyzeFood_def analyzeFood_try_def catch_finally_def)

lemma analyzeFood_not_ok:
  assumes "trim (foodItem v) \<noteq> []" "encodeURIComponent (trim (foodItem v)) = Some q"
    "fetch e (js ''/api/analyze/'' @ q) = Resolved r" "\<not> ok r"
  shows "analyzeFood e v =
    [SetLoading True, SetError [], Fetch (js ''/api/analyze/'' @ q),
     ConsoleError (Exn Error (js ''Failed to analyze '' @ foodItem v @ js ''. Please try again.'')),
     SetError (js ''Failed to analyze '' @ foodItem v @ js ''. Please try again.''),
     SetLoading False]"
  using assms by (simp add: analyzeFood_def analyzeFood_try_def catch_finally_def js_def)

lemma analyzeFood_body_pending:
  assumes "trim (foodItem v) \<noteq> []" "encodeURIComponent (trim (foodItem v)) = Some q"
    "fetch e (js ''/api/analyze/'' @ q) = Resolved r" "ok r" "body r = BodyPending"
  shows "analyzeFood e v = [SetLoading True, SetError [], Fetch (js ''/api/analyze/'' @ q)]"
  using assms by (simp add: analyzeFood_def analyzeFood_try_def catch_finally_def)

lemma analyzeFood_body_rejected:
  assumes "trim (foodItem v) \<noteq> []" "encodeURIComponent (trim (foodItem v)) = Some q"
    "fetch e (js ''/api/analyze/'' @ q) = Resolved r" "ok r" "body r = BodyRejected x"
  shows "analyzeFood e v =
    [SetLoading True, SetError [], Fetch (js ''/api/analyze/'' @ q), ConsoleError x,
     SetError (if message x \<noteq> [] then message x
               else js ''Failed to analyze food. Please try again.''),
     SetLoading False]"
  using assms by (simp add: analyzeFood_def analyzeFood_try_def catch_finally_def)

lemma invalid_response_nonempty: "js ''Invalid response from server'' \<noteq> []"
  by (simp add: js_def)

lemma analyzeFood_bad_shape:
  assumes "trim (foodItem v) \<noteq> []" "encodeURIComponent (trim (foodItem v)) = Some q"
    "fetch e (js ''/api/analyze/'' @ q) = Resolved r" "ok r" "body r = Parsed d"
    "\<not> truthy d \<or> \<not> truthy_opt (detailed_breakdown d)"
  shows "analyzeFood e v =
    [SetLoading True, SetError [], Fetch (js ''/api/analyze/'' @ q),
     ConsoleError (Exn Error (js ''Invalid response from server'')),
     SetError (js ''Invalid response from server''),
     SetLoading False]"
  using assms
  by (auto simp add: analyzeFood_def analyzeFood_try_def catch_finally_def
      invalid_response_nonempty)

lemma analyzeFood_success:
  assumes "trim (foodItem v) \<noteq> []" "encodeURIComponent (trim (foodItem v)) = Some q"
    "fetch e (js ''/api/analyze/'' @ q) = Resolved r" "ok r" "body r = Parsed d"
    "truthy d" "truthy_opt (detailed_breakdown d)"
  shows "analyzeFood e v =
    [SetLoading True, SetError [], Fetch (js ''/api/analyze/'' @ q), SetNutritionData d,
     SetLoading False]"
  using assms by (simp add: analyzeFood_def analyzeFood_try_def catch_finally_def)

lemma handleQuickAnalysis_uri_error:
  assumes "encodeURIComponent (trim food) = None"
  shows "handleQuickAnalysis e food =
    [SetError [], SetFoodItem (toLowerCase e food), SetLoading True,
     ConsoleError (Exn URIError (uri_error_message e)),
     SetError (if uri_error_message e \<noteq> [] then uri_error_message e
               else js ''Failed to analyze food. Please try again.''),
     SetLoading False]"
  using assms by (simp add: handleQuickAnalysis_def handleQuickAnalysis_try_def catch_finally_def)

lemma handleQuickAnalysis_pending:
  assumes "encodeURIComponent (trim food) = Some q"
    "fetch e (js ''http://localhost:8000/api/analyze/'' @ q) = Pending"
  shows "handleQuickAnalysis e food =
    [SetError [], SetFoodItem (toLowerCase e food), SetLoading True,
     Fetch (js ''http://localhost:8000/api/analyze/'' @ q)]"
  using assms by (simp add: handleQuickAnalysis_def handleQuickAnalysis_try_def catch_finally_def)

lemma handleQuickAnalysis_rejected:
  assumes "encodeURIComponent (trim food) = Some q"
    "fetch e (js ''http://localhost:8000/api/analyze/'' @ q) = Rejected x"
  shows "handleQuickAnalysis e food =
    [SetError [], SetFoodItem (toLowerCase e food), SetLoading True,
     Fetch (js ''http://localhost:8000/api/analyze/'' @ q), ConsoleError x,
     SetError (if message x \<noteq> [] then message x
               else js ''Failed to analyze food. Please try again.''),
     SetLoading False]"
  using assms by (simp add: handleQuickAnalysis_def handleQuickAnalysis_try_def catch_finally_def)

lemma handleQuickAnalysis_not_ok:
  assumes "encodeURIComponent (trim food) = Some q"
    "fetch e (js ''http://localhost:8000/api/analyze/'' @ q) = Resolved r" "\<not> ok r"
  shows "handleQuickAnalysis e food =
    [SetError [], SetFoodItem (toLowerCase e food), SetLoading True,
     Fetch (js ''http://localhost:8000/api/analyze/'' @ q),
     ConsoleError (Exn Error (js ''Failed to analyze '' @ food @ js ''. Please try again.'')),
     SetError (js ''Failed to analyze '' @ food @ js ''. Please try again.''),
     SetLoading False]"
  using assms
  by (simp add: handleQuickAnalysis_def handleQuickAnalysis_try_def catch_finally_def js_def)

lemma handleQuickAnalysis_body_pending:
  assumes "encodeURIComponent (trim food) = Some q"
    "fetch e (js ''http://localhost:8000/api/analyze/'' @ q) = Resolved r" "ok r"
    "body r = BodyPending"
  shows "handleQuickAnalysis e food =
    [SetError [], SetFoodItem (toLowerCase e food), SetLoading True,
     Fetch (js ''http://localhost:8000/api/analyze/'' @ q)]"
  using assms by (simp add: handleQuickAnalysis_def handleQuickAnalysis_try_def catch_finally_def)

lemma handleQuickAnalysis_body_rejected:
  assumes "encodeURIComponent (trim food) = Some q"
    "fetch e (js ''http://localhost:8000/api/analyze/'' @ q) = Resolved r" "ok r"
    "body r = BodyRejected x"
  shows "handleQuickAnalysis e food =
    [SetError [], SetFoodItem (toLowerCase e food), SetLoading True,
     Fetch (js ''http://localhost:8000/api/analyze/'' @ q), ConsoleError x,
     SetError (if message x \<noteq> [] then message x
               else js ''Failed to analyze food. Please try again.''),
     SetLoading False]"
  using assms by (simp add: handleQuickAnalysis_def handleQuickAnalysis_try_def catch_finally_def)

lemma handleQuickAnalysis_bad_shape:
  assumes "encodeURIComponent (trim food) = Some q"
    "fetch e (js ''http://localhost:8000/api/analyze/'' @ q) = Resolved r" "ok r"
    "body r = Parsed d"
    "\<not> truthy d \<or> \<not> truthy_opt (detailed_breakdown d)"
  shows "handleQuickAnalysis e food =
    [SetError [], SetFoodItem (toLowerCase e food), SetLoading True,
     Fetch (js ''http://localhost:8000/api/analyze/'' @ q),
     ConsoleError (Exn Error (js ''Invalid response from server'')),
     SetError (js ''Invalid response from server''),
     SetLoading False]"
  using assms
  by (auto simp add: handleQuickAnalysis_def handleQuickAnalysis_try_def catch_finally_def
      invalid_response_nonempty)

lemma handleQuickAnalysis_success:
  assumes "encodeURIComponent (trim food) = Some q"
    "fetch e (js ''http://localhost:8000/api/analyze/'' @ q) = Resolved r" "ok r"
    "body r = Parsed d"
    "truthy d" "truthy_opt (detailed_breakdown d)"
  shows "handleQuickAnalysis e food =
    [SetError [], SetFoodItem (toLowerCase e food), SetLoading True,
     Fetch (js ''http://localhost:8000/api/analyze/'' @ q), SetNutritionData d,
     SetLoading False]"
  using assms by (simp add: handleQuickAnalysis_def handleQuickAnalysis_try_def catch_finally_def)

lemma analyzeFood_settled_shape:
  assumes t: "trim (foodItem v) \<noteq> []" and s: "\<forall>u. settles (fetch e u)"
  shows "\<exists>d h. analyzeFood e v = [SetLoading True, SetError []] @ d @ h @ [SetLoading False] \<and>
           list_all is_fetch d \<and> length d \<le> 1 \<and> h \<noteq> [] \<and> list_all is_handling h"
proof (cases "encodeURIComponent (trim (foodItem v))")
  case None
  let ?h = "[ConsoleError (Exn URIError (uri_error_message e)),
     SetError (if uri_error_message e \<noteq> [] then uri_error_message e
               else js ''Failed to analyze food. Please try again.'')]"
  have "analyzeFood e v = [SetLoading True, SetError []] @ [] @ ?h @ [SetLoading False]"
    using analyzeFood_uri_error [OF t None] by simp
  moreover have "list_all is_handling ?h" by simp
  ultimately show ?thesis by (intro exI [of _ "[]"] exI [of _ ?h]) simp
next
  case (Some q)
  let ?u = "js ''/api/analyze/'' @ q"
  let ?c = "\<lambda>x. [ConsoleError x,
     SetError (if message x \<noteq> [] then message x
               else js ''Failed to analyze food. Please try again.'')]"
  let ?G = ?thesis
  have dh: "?G"
    if "analyzeFood e v = [SetLoading True, SetError [], Fetch ?u] @ h @ [SetLoading False]"
      and "h \<noteq> []" and "list_all is_handling h" for h
    using that by (intro exI [of _ "[Fetch ?u]"] exI [of _ h]) simp
  from s have su: "settles (fetch e ?u)" by blast
  show ?thesis
  proof (cases "fetch e ?u")
    case Pending
    with su show ?thesis by simp
  next
    case (Rejected x)
    show ?thesis
      by (rule dh [of "?c x"]) (simp_all add: analyzeFood_rejected [OF t Some Rejected])
  next
    case (Resolved r)
    show ?thesis
    proof (cases "ok r")
      case False
      show ?thesis
        by (rule dh [of "?c (Exn Error
              (js ''Failed to analyze '' @ foodItem v @ js ''. Please try again.''))"])
          (simp_all add: analyzeFood_not_ok [OF t Some Resolved False] js_def)
    next
      case True
      show ?thesis
      proof (cases "body r")
        case BodyPending
        with su Resolved True show ?thesis by simp
      next
        case (BodyRejected x)
        show ?thesis
          by (rule dh [of "?c x"])
            (simp_all add: analyzeFood_body_rejected [OF t Some Resolved True BodyRejected])
      next
        case (Parsed d)
        show ?thesis
        proof (cases "\<not> truthy d \<or> \<not> truthy_opt (detailed_breakdown d)")
          case True
          show ?thesis
            by (rule dh [of "?c (Exn Error (js ''Invalid response from server''))"])
              (simp_all add: analyzeFood_bad_shape [OF t Some Resolved \<open>ok r\<close> Parsed True]
                invalid_response_nonempty)
        next
          case False
          then have "truthy d" "truthy_opt (detailed_breakdown d)" by simp_all
          then show ?thesis
            by (intro dh [of "[SetNutritionData d]"])
              (simp_all add: analyzeFood_success [OF t Some Resolved \<open>ok r\<close> Parsed])
        qed
      qed
    qed
  qed
qed

lemma handleQuickAnalysis_settled_shape:
  assumes s: "\<forall>u. settles (fetch e u)"
  shows "\<exists>d h. handleQuickAnalysis e food =
             [SetError [], SetFoodItem (toLowerCase e food), SetLoading True] @ d @ h @
             [SetLoading False] \<and>
           list_all is_fetch d \<and> length d \<le> 1 \<and> h \<noteq> [] \<and> list_all is_handling h"
proof (cases "encodeURIComponent (trim food)")
  case None
  let ?h = "[ConsoleError (Exn URIError (uri_error_message e)),
     SetError (if uri_error_message e \<noteq> [] then uri_error_message e
               else js ''Failed to analyze food. Please try again.'')]"
  have "handleQuickAnalysis e food =
      [SetError [], SetFoodItem (toLowerCase e food), SetLoading True] @ [] @ ?h @
      [SetLoading False]"
    using handleQuickAnalysis_uri_error [OF None] by simp
  moreover have "list_all is_handling ?h" by simp
  ultimately show ?thesis by (intro exI [of _ "[]"] exI [of _ ?h]) simp
next
  case (Some q)
  let ?u = "js ''http://localhost:8000/api/analyze/'' @ q"
  let ?c = "\<lambda>x. [ConsoleError x,
     SetError (if message x \<noteq> [] then message x
               else js ''Failed to analyze food. Please try again.'')]"
  let ?G = ?thesis
  have dh: "?G"
    if "handleQuickAnalysis e food =
        [SetError [], SetFoodItem (toLowerCase e food), SetLoading True, Fetch ?u] @ h @
        [SetLoading False]"
      and "h \<noteq> []" and "list_all is_handling h" for h
    using that by (intro exI [of _ "[Fetch ?u]"] exI [of _ h]) simp
  from s have su: "settles (fetch e ?u)" by blast
  show ?thesis
  proof (cases "fetch e ?u")
    case Pending
    with su show ?thesis by simp
  next
    case (Rejected x)
    show ?thesis
      by (rule dh [of "?c x"]) (simp_all add: handleQuickAnalysis_rejected [OF Some Rejected])
  next
    case (Resolved r)
    show ?thesis
    proof (cases "ok r")
      case False
      show ?thesis
        by (rule dh [of "?c (Exn Error
              (js ''Failed to analyze '' @ food @ js ''. Please try again.''))"])
          (simp_all add: handleQuickAnalysis_not_ok [OF Some Resolved False] js_def)
    next
      case True
      show ?thesis
      proof (cases "body r")
        case BodyPending
        with su Resolved True show ?thesis by simp
      next
        case (BodyRejected x)
        show ?thesis
          by (rule dh [of "?c x"])
            (simp_all add: handleQuickAnalysis_body_rejected [OF Some Resolved True BodyRejected])
      next
        case (Parsed d)
        show ?thesis
        proof (cases "\<not> truthy d \<or> \<not> truthy_opt (detailed_breakdown d)")
          case True
          show ?thesis
            by (rule dh [of "?c (Exn Error (js ''Invalid response from server''))"])
              (simp_all add: handleQuickAnalysis_bad_shape [OF Some Resolved \<open>ok r\<close> Parsed True]
                invalid_response_nonempty)
        next
          case False
          then have "truthy d" "truthy_opt (detailed_breakdown d)" by simp_all
          then show ?thesis
            by (intro dh [of "[SetNutritionData d]"])
              (simp_all add: handleQuickAnalysis_success [OF Some Resolved \<open>ok r\<close> Parsed])
        qed
      qed
    qed
  qed
qed



lemma analyzeFood_failed:
  assumes t: "trim (foodItem v) \<noteq> []" and q: "encodeURIComponent (trim (foodItem v)) = Some q"
    and f: "failed (fetch e (js ''/api/analyze/'' @ q))"
  shows "\<exists>x. analyzeFood e v =
     [SetLoading True, SetError [], Fetch (js ''/api/analyze/'' @ q), ConsoleError x,
      SetError (if message x \<noteq> [] then message x
                else js ''Failed to analyze food. Please try again.''),
      SetLoading False]"
proof (cases "fetch e (js ''/api/analyze/'' @ q)")
  case Pending
  with f show ?thesis by simp
next
  case (Rejected x)
  from analyzeFood_rejected [OF t q Rejected] show ?thesis by blast
next
  case (Resolved r)
  show ?thesis
  proof (cases "ok r")
    case False
    from analyzeFood_not_ok [OF t q Resolved False] show ?thesis
      by (intro exI [of _ "Exn Error
            (js ''Failed to analyze '' @ foodItem v @ js ''. Please try again.'')"])
        (simp add: js_def)
  next
    case True
    show ?thesis
    proof (cases "body r")
      case BodyPending
      with f Resolved True show ?thesis by simp
    next
      case (BodyRejected x)
      from analyzeFood_body_rejected [OF t q Resolved True BodyRejected] show ?thesis by blast
    next
      case (Parsed d)
      with f Resolved True have "\<not> truthy d \<or> \<not> truthy_opt (detailed_breakdown d)" by simp
      from analyzeFood_bad_shape [OF t q Resolved True Parsed this] show ?thesis
        by (intro exI [of _ "Exn Error (js ''Invalid response from server'')"])
          (simp add: invalid_response_nonempty)
    qed
  qed
qed

lemma caught_keeps_result:
  assumes "t = pre @ [ConsoleError x,
      SetError (if message x \<noteq> [] then message x
                else js ''Failed to analyze food. Please try again.''),
      SetLoading False]"
    and "\<forall>d. SetNutritionData d \<notin> set pre"
  shows "nutritionData (run t v) = nutritionData (run pre v) \<and> error (run t v) \<noteq> [] \<and>
         loading (run t v) = False \<and> (\<forall>d. SetNutritionData d \<notin> set t)"
  using assms by (simp add: run_append run_Cons run_Nil fallback_nonempty)

lemma handleQuickAnalysis_failed:
  assumes q: "encodeURIComponent (trim food) = Some q"
    and f: "failed (fetch e (js ''http://localhost:8000/api/analyze/'' @ q))"
  shows "\<exists>x. handleQuickAnalysis e food =
     [SetError [], SetFoodItem (toLowerCase e food), SetLoading True,
     Fetch (js ''http://localhost:8000/api/analyze/'' @ q), ConsoleError x,
      SetError (if message x \<noteq> [] then message x
                else js ''Failed to analyze food. Please try again.''),
      SetLoading False]"
proof (cases "fetch e (js ''http://localhost:8000/api/analyze/'' @ q)")
  case Pending
  with f show ?thesis by simp
next
  case (Rejected x)
  from handleQuickAnalysis_rejected [OF q Rejected] show ?thesis by blast
next
  case (Resolved r)
  show ?thesis
  proof (cases "ok r")
    case False
    from handleQuickAnalysis_not_ok [OF q Resolved False] show ?thesis
      by (intro exI [of _ "Exn Error
            (js ''Failed to analyze '' @ food @ js ''. Please try again.'')"])
        (simp add: js_def)
  next
    case True
    show ?thesis
    proof (cases "body r")
      case BodyPending
      with f Resolved True show ?thesis by simp
    next
      case (BodyRejected x)
      from handleQuickAnalysis_body_rejected [OF q Resolved True BodyRejected] show ?thesis by blast
    next
      case (Parsed d)
      with f Resolved True have "\<not> truthy d \<or> \<not> truthy_opt (detailed_breakdown d)" by simp
      from handleQuickAnalysis_bad_shape [OF q Resolved True Parsed this] show ?thesis
        by (intro exI [of _ "Exn Error (js ''Invalid response from server'')"])
          (simp add: invalid_response_nonempty)
    qed
  qed
qed



subsection \<open>Validation\<close>

text \<open>
  C1. When the query text consists of whitespace only (the empty text included),
  \<open>analyzeFood\<close> does nothing but set the error message "Please enter a food item":
  it calls \<open>fetch\<close> not once and never touches the busy flag.
\<close>

theorem analyzeFood_whitespace_only:
  assumes "\<forall>c \<in> set (foodItem v). is_white c"
  shows "analyzeFood e v = [SetError (js ''Please enter a food item'')] \<and>
         filter is_fetch (analyzeFood e v) = [] \<and>
         (\<forall>b. SetLoading b \<notin> set (analyzeFood e v)) \<and>
         run (analyzeFood e v) v = v\<lparr>error := js ''Please enter a food item''\<rparr>"
proof -
  from assms have "trim (foodItem v) = []" by (simp add: trim_Nil_iff)
  then have t: "analyzeFood e v = [SetError (js ''Please enter a food item'')]"
    by (simp add: analyzeFood_def)
  show ?thesis unfolding t by (simp add: run_def)
qed

theorem analyzeFood_whitespace_only_witness:
  "analyzeFood (offline []) \<lparr>foodItem = [0x20, 0x9, 0x3000, 0xA], loading = False, nutritionData = None,
      error = [], darkMode = False\<rparr> = [SetError (js ''Please enter a food item'')] \<and>
   analyzeFood (offline []) \<lparr>foodItem = [], loading = False, nutritionData = Some JNull,
      error = js ''old'', darkMode = False\<rparr> = [SetError (js ''Please enter a food item'')]"
proof -
  have a: "analyzeFood (offline []) \<lparr>foodItem = [0x20, 0x9, 0x3000, 0xA], loading = False,
      nutritionData = None, error = [], darkMode = False\<rparr> =
      [SetError (js ''Please enter a food item'')]"
    using analyzeFood_whitespace_only [of "\<lparr>foodItem = [0x20, 0x9, 0x3000, 0xA], loading = False,
      nutritionData = None, error = [], darkMode = False\<rparr>" "offline []"]
    by (simp add: is_white_def)
  have b: "analyzeFood (offline []) \<lparr>foodItem = [], loading = False, nutritionData = Some JNull,
      error = js ''old'', darkMode = False\<rparr> = [SetError (js ''Please enter a food item'')]"
    using analyzeFood_whitespace_only [of "\<lparr>foodItem = [], loading = False,
      nutritionData = Some JNull, error = js ''old'', darkMode = False\<rparr>" "offline []"]
    by simp
  from a b show ?thesis by blast
qed

subsection \<open>Order of a submission\<close>

text \<open>
  C3. When the network settles, a submission that passed validation (and every quick
  analysis) runs in this order: the setters that enter the busy state, at most one
  call of \<open>fetch\<close>, the handling of the response (the result stored, or the error
  logged and shown), and \<open>setLoading(false)\<close> as the last effect, so that the run ends
  with the busy flag false. A query that fails validation is never dispatched.
\<close>

theorem submission_order:
  assumes "\<forall>u. settles (fetch e u)"
  shows
    "(trim (foodItem v) \<noteq> [] \<longrightarrow>
        (\<exists>d h. analyzeFood e v = [SetLoading True, SetError []] @ d @ h @ [SetLoading False] \<and>
           list_all is_fetch d \<and> length d \<le> 1 \<and> h \<noteq> [] \<and> list_all is_handling h) \<and>
        last (analyzeFood e v) = SetLoading False \<and>
        loading (run (analyzeFood e v) v) = False) \<and>
     (trim (foodItem v) = [] \<longrightarrow> filter is_fetch (analyzeFood e v) = []) \<and>
     (\<exists>d h. handleQuickAnalysis e food =
           [SetError [], SetFoodItem (toLowerCase e food), SetLoading True] @ d @ h @
           [SetLoading False] \<and>
        list_all is_fetch d \<and> length d \<le> 1 \<and> h \<noteq> [] \<and> list_all is_handling h) \<and>
     last (handleQuickAnalysis e food) = SetLoading False \<and>
     loading (run (handleQuickAnalysis e food) v) = False"
proof -
  have a: "last (analyzeFood e v) = SetLoading False \<and> loading (run (analyzeFood e v) v) = False"
    if t: "trim (foodItem v) \<noteq> []"
  proof -
    from analyzeFood_settled_shape [OF t assms] obtain d h
      where "analyzeFood e v = [SetLoading True, SetError []] @ d @ h @ [SetLoading False]"
      by blast
    then have "analyzeFood e v = ([SetLoading True, SetError []] @ d @ h) @ [SetLoading False]"
      by simp
    then show ?thesis by (simp only: last_snoc run_append run_Cons run_Nil) simp
  qed
  have b: "last (handleQuickAnalysis e food) = SetLoading False \<and>
      loading (run (handleQuickAnalysis e food) v) = False"
  proof -
    from handleQuickAnalysis_settled_shape [OF assms] obtain d h
      where "handleQuickAnalysis e food =
        [SetError [], SetFoodItem (toLowerCase e food), SetLoading True] @ d @ h @
        [SetLoading False]"
      by blast
    then have "handleQuickAnalysis e food =
        ([SetError [], SetFoodItem (toLowerCase e food), SetLoading True] @ d @ h) @
        [SetLoading False]"
      by simp
    then show ?thesis by (simp only: last_snoc run_append run_Cons run_Nil) simp
  qed
  have c: "filter is_fetch (analyzeFood e v) = []" if "trim (foodItem v) = []"
    using that by (simp add: analyzeFood_def)
  from a b c analyzeFood_settled_shape [OF _ assms]
    handleQuickAnalysis_settled_shape [OF assms]
  show ?thesis by blast
qed

lemma banana_run:
  "analyzeFood (service 200 (Parsed banana)) (initial_view\<lparr>foodItem := js ''Banana''\<rparr>) =
     [SetLoading True, SetError [], Fetch (js ''/api/analyze/Banana''),
      SetNutritionData banana, SetLoading False]"
proof -
  have n: "js ''Banana'' \<noteq> []" by (simp add: js_def)
  have u: "js ''/api/analyze/'' @ js ''Banana'' = js ''/api/analyze/Banana''"
    by (simp add: js_def)
  show ?thesis
    using analyzeFood_success [of "initial_view\<lparr>foodItem := js ''Banana''\<rparr>" "js ''Banana''"
        "service 200 (Parsed banana)" "\<lparr>status = 200, body = Parsed banana\<rparr>" banana]
    by (simp add: trim_Banana encode_Banana banana_shape n u service_def ok_def)
qed

theorem submission_order_witness:
  "analyzeFood (service 200 (Parsed banana)) (initial_view\<lparr>foodItem := js ''Banana''\<rparr>) =
     [SetLoading True, SetError [], Fetch (js ''/api/analyze/Banana''),
      SetNutritionData banana, SetLoading False] \<and>
   last (analyzeFood (service 200 (Parsed banana)) (initial_view\<lparr>foodItem := js ''Banana''\<rparr>))
     = SetLoading False \<and>
   loading (run (analyzeFood (service 200 (Parsed banana))
     (initial_view\<lparr>foodItem := js ''Banana''\<rparr>)) (initial_view\<lparr>foodItem := js ''Banana''\<rparr>))
     = False \<and>
   last (handleQuickAnalysis (service 500 BodyPending) (js ''Banana'')) = SetLoading False"
proof -
  have s1: "\<forall>u. settles (fetch (service 200 (Parsed banana)) u)"
    by (simp add: service_def)
  have s2: "\<forall>u. settles (fetch (service 500 BodyPending) u)"
    by (simp add: service_def ok_def)
  have n: "trim (foodItem (initial_view\<lparr>foodItem := js ''Banana''\<rparr>)) \<noteq> []"
    by (simp add: trim_Banana) (simp add: js_def)
  from submission_order [OF s1, of "initial_view\<lparr>foodItem := js ''Banana''\<rparr>"] n
  have a: "last (analyzeFood (service 200 (Parsed banana))
        (initial_view\<lparr>foodItem := js ''Banana''\<rparr>)) = SetLoading False \<and>
      loading (run (analyzeFood (service 200 (Parsed banana))
        (initial_view\<lparr>foodItem := js ''Banana''\<rparr>)) (initial_view\<lparr>foodItem := js ''Banana''\<rparr>))
      = False"
    by blast
  from submission_order [OF s2, of initial_view "js ''Banana''"]
  have b: "last (handleQuickAnalysis (service 500 BodyPending) (js ''Banana'')) = SetLoading False"
    by blast
  from a b banana_run show ?thesis by blast
qed

subsection \<open>Failures\<close>

text \<open>
  C4. On every failure path of both handlers (validation failure, URL escaping
  throwing, transport failure, a status outside 200..299, a body that is not JSON, a
  value of the wrong shape) the stored nutrition data stays what it was, no
  \<open>setNutritionData\<close> happens, and the error message is set to a non-empty text.
\<close>

theorem failure_keeps_result:
  "(trim (foodItem v) = [] \<longrightarrow>
      nutritionData (run (analyzeFood e v) v) = nutritionData v \<and>
      error (run (analyzeFood e v) v) = js ''Please enter a food item'' \<and>
      (\<forall>d. SetNutritionData d \<notin> set (analyzeFood e v))) \<and>
   (trim (foodItem v) \<noteq> [] \<and>
    (encodeURIComponent (trim (foodItem v)) = None \<or>
     (\<exists>q. encodeURIComponent (trim (foodItem v)) = Some q \<and>
          failed (fetch e (js ''/api/analyze/'' @ q)))) \<longrightarrow>
      nutritionData (run (analyzeFood e v) v) = nutritionData v \<and>
      error (run (analyzeFood e v) v) \<noteq> [] \<and>
      (\<forall>d. SetNutritionData d \<notin> set (analyzeFood e v))) \<and>
   (encodeURIComponent (trim food) = None \<or>
    (\<exists>q. encodeURIComponent (trim food) = Some q \<and>
         failed (fetch e (js ''http://localhost:8000/api/analyze/'' @ q))) \<longrightarrow>
      nutritionData (run (handleQuickAnalysis e food) v) = nutritionData v \<and>
      error (run (handleQuickAnalysis e food) v) \<noteq> [] \<and>
      (\<forall>d. SetNutritionData d \<notin> set (handleQuickAnalysis e food)))"
proof (intro conjI impI)
  assume "trim (foodItem v) = []"
  then have t: "analyzeFood e v = [SetError (js ''Please enter a food item'')]"
    by (simp add: analyzeFood_def)
  show "nutritionData (run (analyzeFood e v) v) = nutritionData v"
    and "error (run (analyzeFood e v) v) = js ''Please enter a food item''"
    and "\<forall>d. SetNutritionData d \<notin> set (analyzeFood e v)"
    unfolding t by (simp_all add: run_def)
next
  assume a: "trim (foodItem v) \<noteq> [] \<and>
    (encodeURIComponent (trim (foodItem v)) = None \<or>
     (\<exists>q. encodeURIComponent (trim (foodItem v)) = Some q \<and>
          failed (fetch e (js ''/api/analyze/'' @ q))))"
  then have t: "trim (foodItem v) \<noteq> []" by blast
  have "\<exists>pre x. analyzeFood e v = pre @ [ConsoleError x,
      SetError (if message x \<noteq> [] then message x
                else js ''Failed to analyze food. Please try again.''),
      SetLoading False] \<and> (\<forall>d. SetNutritionData d \<notin> set pre) \<and>
      nutritionData (run pre v) = nutritionData v"
  proof (cases "encodeURIComponent (trim (foodItem v))")
    case None
    from analyzeFood_uri_error [OF t None, of e] show ?thesis
      by (intro exI [of _ "[SetLoading True, SetError []]"]
          exI [of _ "Exn URIError (uri_error_message e)"]) (simp add: run_def)
  next
    case (Some q)
    with a have "failed (fetch e (js ''/api/analyze/'' @ q))" by simp
    from analyzeFood_failed [OF t Some this] obtain x where
      "analyzeFood e v =
       [SetLoading True, SetError [], Fetch (js ''/api/analyze/'' @ q), ConsoleError x,
        SetError (if message x \<noteq> [] then message x
                  else js ''Failed to analyze food. Please try again.''),
        SetLoading False]"
      by blast
    then show ?thesis
      by (intro exI [of _ "[SetLoading True, SetError [], Fetch (js ''/api/analyze/'' @ q)]"]
          exI [of _ x]) (simp add: run_def)
  qed
  then obtain pre x where p: "analyzeFood e v = pre @ [ConsoleError x,
      SetError (if message x \<noteq> [] then message x
                else js ''Failed to analyze food. Please try again.''),
      SetLoading False]" "\<forall>d. SetNutritionData d \<notin> set pre"
      "nutritionData (run pre v) = nutritionData v"
    by blast
  from caught_keeps_result [OF p(1) p(2), of v] p(3)
  show "nutritionData (run (analyzeFood e v) v) = nutritionData v"
    and "error (run (analyzeFood e v) v) \<noteq> []"
    and "\<forall>d. SetNutritionData d \<notin> set (analyzeFood e v)"
    by simp_all
next
  assume a: "encodeURIComponent (trim food) = None \<or>
    (\<exists>q. encodeURIComponent (trim food) = Some q \<and>
         failed (fetch e (js ''http://localhost:8000/api/analyze/'' @ q)))"
  have "\<exists>pre x. handleQuickAnalysis e food = pre @ [ConsoleError x,
      SetError (if message x \<noteq> [] then message x
                else js ''Failed to analyze food. Please try again.''),
      SetLoading False] \<and> (\<forall>d. SetNutritionData d \<notin> set pre) \<and>
      nutritionData (run pre v) = nutritionData v"
  proof (cases "encodeURIComponent (trim food)")
    case None
    from handleQuickAnalysis_uri_error [OF None, of e] show ?thesis
      by (intro exI [of _ "[SetError [], SetFoodItem (toLowerCase e food), SetLoading True]"]
          exI [of _ "Exn URIError (uri_error_message e)"]) (simp add: run_def)
  next
    case (Some q)
    with a have "failed (fetch e (js ''http://localhost:8000/api/analyze/'' @ q))" by simp
    from handleQuickAnalysis_failed [OF Some this] obtain x where
      "handleQuickAnalysis e food =
       [SetError [], SetFoodItem (toLowerCase e food), SetLoading True,
        Fetch (js ''http://localhost:8000/api/analyze/'' @ q), ConsoleError x,
        SetError (if message x \<noteq> [] then message x
                  else js ''Failed to analyze food. Please try again.''),
        SetLoading False]"
      by blast
    then show ?thesis
      by (intro exI [of _ "[SetError [], SetFoodItem (toLowerCase e food), SetLoading True,
            Fetch (js ''http://localhost:8000/api/analyze/'' @ q)]"]
          exI [of _ x]) (simp add: run_def)
  qed
  then obtain pre x where p: "handleQuickAnalysis e food = pre @ [ConsoleError x,
      SetError (if message x \<noteq> [] then message x
                else js ''Failed to analyze food. Please try again.''),
      SetLoading False]" "\<forall>d. SetNutritionData d \<notin> set pre"
      "nutritionData (run pre v) = nutritionData v"
    by blast
  from caught_keeps_result [OF p(1) p(2), of v] p(3)
  show "nutritionData (run (handleQuickAnalysis e food) v) = nutritionData v"
    and "error (run (handleQuickAnalysis e food) v) \<noteq> []"
    and "\<forall>d. SetNutritionData d \<notin> set (handleQuickAnalysis e food)"
    by simp_all
qed

theorem failure_keeps_result_witness:
  "nutritionData (run (analyzeFood (service 404 BodyPending)
       (initial_view\<lparr>foodItem := js ''pizza'', nutritionData := Some banana\<rparr>))
       (initial_view\<lparr>foodItem := js ''pizza'', nutritionData := Some banana\<rparr>)) = Some banana \<and>
   error (run (analyzeFood (service 404 BodyPending)
       (initial_view\<lparr>foodItem := js ''pizza'', nutritionData := Some banana\<rparr>))
       (initial_view\<lparr>foodItem := js ''pizza'', nutritionData := Some banana\<rparr>)) \<noteq> [] \<and>
   nutritionData (run (analyzeFood (offline (js ''Failed to fetch''))
       (initial_view\<lparr>nutritionData := Some banana\<rparr>))
       (initial_view\<lparr>nutritionData := Some banana\<rparr>)) = Some banana \<and>
   nutritionData (run (handleQuickAnalysis (offline (js ''Failed to fetch'')) (js ''pizza''))
       (initial_view\<lparr>nutritionData := Some banana\<rparr>)) = Some banana"
proof -
  let ?v = "initial_view\<lparr>foodItem := js ''pizza'', nutritionData := Some banana\<rparr>"
  let ?w = "initial_view\<lparr>nutritionData := Some banana\<rparr>"
  have f: "failed (fetch (service 404 BodyPending) u)" for u
    by (simp add: service_def ok_def)
  have g: "failed (fetch (offline m) u)" for m u
    by (simp add: offline_def)
  have a: "nutritionData (run (analyzeFood (service 404 BodyPending) ?v) ?v) = Some banana \<and>
      error (run (analyzeFood (service 404 BodyPending) ?v) ?v) \<noteq> []"
    using failure_keeps_result [where v = ?v and e = "service 404 BodyPending" and food = "[]"] f
    by (simp add: trim_pizza encode_pizza pizza_nonempty)
  have b: "nutritionData (run (analyzeFood (offline (js ''Failed to fetch'')) ?w) ?w) = Some banana"
    using failure_keeps_result [where v = ?w and e = "offline (js ''Failed to fetch'')"
        and food = "[]"]
    by (simp add: initial_view_def trim_def)
  have c: "nutritionData (run (handleQuickAnalysis (offline (js ''Failed to fetch''))
      (js ''pizza'')) ?w) = Some banana"
    using failure_keeps_result [where v = ?w and e = "offline (js ''Failed to fetch'')"
        and food = "js ''pizza''"] g
    by (simp add: trim_pizza encode_pizza)
  from a b c show ?thesis by blast
qed


text \<open>
  C5 (as the code has it). When the response has a success status and its body parses
  to \<open>null\<close> or to a value with no \<open>detailed_breakdown\<close> member, both handlers end with
  the fixed error message "Invalid response from server". When the body cannot be
  parsed at all (it is empty or not JSON), \<open>response.json()\<close> rejects and the handlers
  show the message of that rejection, or the generic "Failed to analyze food. Please
  try again." when it is empty.
\<close>

theorem missing_breakdown_rejected:
  "(trim (foodItem v) \<noteq> [] \<and> encodeURIComponent (trim (foodItem v)) = Some q \<and>
    fetch e (js ''/api/analyze/'' @ q) = Resolved r \<and> ok r \<and> body r = Parsed d \<and>
    (d = JNull \<or> detailed_breakdown d = None) \<longrightarrow>
      analyzeFood e v =
        [SetLoading True, SetError [], Fetch (js ''/api/analyze/'' @ q),
         ConsoleError (Exn Error (js ''Invalid response from server'')),
         SetError (js ''Invalid response from server''), SetLoading False] \<and>
      error (run (analyzeFood e v) v) = js ''Invalid response from server'') \<and>
   (encodeURIComponent (trim food) = Some p \<and>
    fetch e (js ''http://localhost:8000/api/analyze/'' @ p) = Resolved r' \<and> ok r' \<and>
    body r' = Parsed d' \<and> (d' = JNull \<or> detailed_breakdown d' = None) \<longrightarrow>
      handleQuickAnalysis e food =
        [SetError [], SetFoodItem (toLowerCase e food), SetLoading True,
         Fetch (js ''http://localhost:8000/api/analyze/'' @ p),
         ConsoleError (Exn Error (js ''Invalid response from server'')),
         SetError (js ''Invalid response from server''), SetLoading False] \<and>
      error (run (handleQuickAnalysis e food) v) = js ''Invalid response from server'') \<and>
   (trim (foodItem v) \<noteq> [] \<and> encodeURIComponent (trim (foodItem v)) = Some q \<and>
    fetch e (js ''/api/analyze/'' @ q) = Resolved r \<and> ok r \<and> body r = BodyRejected x \<longrightarrow>
      analyzeFood e v =
        [SetLoading True, SetError [], Fetch (js ''/api/analyze/'' @ q), ConsoleError x,
         SetError (if message x \<noteq> [] then message x
                   else js ''Failed to analyze food. Please try again.''),
         SetLoading False] \<and>
      error (run (analyzeFood e v) v) =
        (if message x \<noteq> [] then message x
         else js ''Failed to analyze food. Please try again.'')) \<and>
   (encodeURIComponent (trim food) = Some p \<and>
    fetch e (js ''http://localhost:8000/api/analyze/'' @ p) = Resolved r' \<and> ok r' \<and>
    body r' = BodyRejected x' \<longrightarrow>
      handleQuickAnalysis e food =
        [SetError [], SetFoodItem (toLowerCase e food), SetLoading True,
         Fetch (js ''http://localhost:8000/api/analyze/'' @ p), ConsoleError x',
         SetError (if message x' \<noteq> [] then message x'
                   else js ''Failed to analyze food. Please try again.''),
         SetLoading False] \<and>
      error (run (handleQuickAnalysis e food) v) =
        (if message x' \<noteq> [] then message x'
         else js ''Failed to analyze food. Please try again.''))"
proof (intro conjI impI)
  assume a: "trim (foodItem v) \<noteq> [] \<and> encodeURIComponent (trim (foodItem v)) = Some q \<and>
    fetch e (js ''/api/analyze/'' @ q) = Resolved r \<and> ok r \<and> body r = Parsed d \<and>
    (d = JNull \<or> detailed_breakdown d = None)"
  then have "\<not> truthy d \<or> \<not> truthy_opt (detailed_breakdown d)" by auto
  with a have t: "analyzeFood e v =
        [SetLoading True, SetError [], Fetch (js ''/api/analyze/'' @ q),
         ConsoleError (Exn Error (js ''Invalid response from server'')),
         SetError (js ''Invalid response from server''), SetLoading False]"
    using analyzeFood_bad_shape [of v q e r d] by blast
  then show "analyzeFood e v =
        [SetLoading True, SetError [], Fetch (js ''/api/analyze/'' @ q),
         ConsoleError (Exn Error (js ''Invalid response from server'')),
         SetError (js ''Invalid response from server''), SetLoading False]" .
  show "error (run (analyzeFood e v) v) = js ''Invalid response from server''"
    unfolding t by (simp add: run_def)
next
  assume a: "encodeURIComponent (trim food) = Some p \<and>
    fetch e (js ''http://localhost:8000/api/analyze/'' @ p) = Resolved r' \<and> ok r' \<and>
    body r' = Parsed d' \<and> (d' = JNull \<or> detailed_breakdown d' = None)"
  then have "\<not> truthy d' \<or> \<not> truthy_opt (detailed_breakdown d')" by auto
  with a have t: "handleQuickAnalysis e food =
        [SetError [], SetFoodItem (toLowerCase e food), SetLoading True,
         Fetch (js ''http://localhost:8000/api/analyze/'' @ p),
         ConsoleError (Exn Error (js ''Invalid response from server'')),
         SetError (js ''Invalid response from server''), SetLoading False]"
    using handleQuickAnalysis_bad_shape [of food p e r' d'] by blast
  then show "handleQuickAnalysis e food =
        [SetError [], SetFoodItem (toLowerCase e food), SetLoading True,
         Fetch (js ''http://localhost:8000/api/analyze/'' @ p),
         ConsoleError (Exn Error (js ''Invalid response from server'')),
         SetError (js ''Invalid response from server''), SetLoading False]" .
  show "error (run (handleQuickAnalysis e food) v) = js ''Invalid response from server''"
    unfolding t by (simp add: run_def)
next
  assume a: "trim (foodItem v) \<noteq> [] \<and> encodeURIComponent (trim (foodItem v)) = Some q \<and>
    fetch e (js ''/api/analyze/'' @ q) = Resolved r \<and> ok r \<and> body r = BodyRejected x"
  then have t: "analyzeFood e v =
        [SetLoading True, SetError [], Fetch (js ''/api/analyze/'' @ q), ConsoleError x,
         SetError (if message x \<noteq> [] then message x
                   else js ''Failed to analyze food. Please try again.''),
         SetLoading False]"
    using analyzeFood_body_rejected [of v q e r x] by blast
  then show "analyzeFood e v =
        [SetLoading True, SetError [], Fetch (js ''/api/analyze/'' @ q), ConsoleError x,
         SetError (if message x \<noteq> [] then message x
                   else js ''Failed to analyze food. Please try again.''),
         SetLoading False]" .
  show "error (run (analyzeFood e v) v) =
        (if message x \<noteq> [] then message x
         else js ''Failed to analyze food. Please try again.'')"
    unfolding t by (simp add: run_def)
next
  assume a: "encodeURIComponent (trim food) = Some p \<and>
    fetch e (js ''http://localhost:8000/api/analyze/'' @ p) = Resolved r' \<and> ok r' \<and>
    body r' = BodyRejected x'"
  then have t: "handleQuickAnalysis e food =
        [SetError [], SetFoodItem (toLowerCase e food), SetLoading True,
         Fetch (js ''http://localhost:8000/api/analyze/'' @ p), ConsoleError x',
         SetError (if message x' \<noteq> [] then message x'
                   else js ''Failed to analyze food. Please try again.''),
         SetLoading False]"
    using handleQuickAnalysis_body_rejected [of food p e r' x'] by blast
  then show "handleQuickAnalysis e food =
        [SetError [], SetFoodItem (toLowerCase e food), SetLoading True,
         Fetch (js ''http://localhost:8000/api/analyze/'' @ p), ConsoleError x',
         SetError (if message x' \<noteq> [] then message x'
                   else js ''Failed to analyze food. Please try again.''),
         SetLoading False]" .
  show "error (run (handleQuickAnalysis e food) v) =
        (if message x' \<noteq> [] then message x'
         else js ''Failed to analyze food. Please try again.'')"
    unfolding t by (simp add: run_def)
qed

theorem missing_breakdown_rejected_witness:
  "error (run (analyzeFood (service 200 (Parsed (JObj [(js ''food'', JStr (js ''banana''))])))
       (initial_view\<lparr>foodItem := js ''Banana''\<rparr>)) (initial_view\<lparr>foodItem := js ''Banana''\<rparr>))
     = js ''Invalid response from server'' \<and>
   error (run (handleQuickAnalysis (service 200 (Parsed JNull)) (js ''Banana'')) initial_view)
     = js ''Invalid response from server'' \<and>
   error (run (handleQuickAnalysis
       (service 200 (BodyRejected (Exn SyntaxError (js ''Unexpected end of JSON input''))))
       (js ''Banana'')) initial_view)
     = js ''Unexpected end of JSON input'' \<and>
   error (run (analyzeFood (service 204 (BodyRejected (Exn SyntaxError [])))
       (initial_view\<lparr>foodItem := js ''Banana''\<rparr>)) (initial_view\<lparr>foodItem := js ''Banana''\<rparr>))
     = js ''Failed to analyze food. Please try again.''"
proof -
  let ?v = "initial_view\<lparr>foodItem := js ''Banana''\<rparr>"
  let ?d = "JObj [(js ''food'', JStr (js ''banana''))]"
  let ?r = "\<lparr>status = 200, body = Parsed ?d\<rparr>"
  let ?r' = "\<lparr>status = 200, body = Parsed JNull\<rparr>"
  let ?x = "Exn SyntaxError (js ''Unexpected end of JSON input'')"
  let ?s = "\<lparr>status = 200, body = BodyRejected ?x\<rparr>"
  let ?s' = "\<lparr>status = 204, body = BodyRejected (Exn SyntaxError [])\<rparr>"
  have n: "js ''Banana'' \<noteq> []" by (simp add: js_def)
  have l: "detailed_breakdown ?d = None" by (simp add: js_def)
  have m: "js ''Unexpected end of JSON input'' \<noteq> []" by (simp add: js_def)
  have h: "trim (foodItem ?v) \<noteq> [] \<and>
    encodeURIComponent (trim (foodItem ?v)) = Some (js ''Banana'') \<and>
    fetch (service 200 (Parsed ?d)) (js ''/api/analyze/'' @ js ''Banana'') = Resolved ?r \<and>
    ok ?r \<and> body ?r = Parsed ?d \<and> (?d = JNull \<or> detailed_breakdown ?d = None)"
    using l by (simp add: trim_Banana encode_Banana n service_def ok_def)
  have h': "encodeURIComponent (trim (js ''Banana'')) = Some (js ''Banana'') \<and>
    fetch (service 200 (Parsed JNull)) (js ''http://localhost:8000/api/analyze/'' @ js ''Banana'')
      = Resolved ?r' \<and>
    ok ?r' \<and> body ?r' = Parsed JNull \<and> (JNull = JNull \<or> detailed_breakdown JNull = None)"
    by (simp add: trim_Banana encode_Banana service_def ok_def)
  have k: "encodeURIComponent (trim (js ''Banana'')) = Some (js ''Banana'') \<and>
    fetch (service 200 (BodyRejected ?x))
      (js ''http://localhost:8000/api/analyze/'' @ js ''Banana'') = Resolved ?s \<and>
    ok ?s \<and> body ?s = BodyRejected ?x"
    by (simp add: trim_Banana encode_Banana service_def ok_def)
  have k': "trim (foodItem ?v) \<noteq> [] \<and>
    encodeURIComponent (trim (foodItem ?v)) = Some (js ''Banana'') \<and>
    fetch (service 204 (BodyRejected (Exn SyntaxError [])))
      (js ''/api/analyze/'' @ js ''Banana'') = Resolved ?s' \<and>
    ok ?s' \<and> body ?s' = BodyRejected (Exn SyntaxError [])"
    by (simp add: trim_Banana encode_Banana n service_def ok_def)
  from missing_breakdown_rejected [where v = ?v and q = "js ''Banana''"
      and e = "service 200 (Parsed ?d)" and r = ?r and d = ?d, THEN conjunct1, THEN mp, OF h]
  have a: "error (run (analyzeFood (service 200 (Parsed ?d)) ?v) ?v)
      = js ''Invalid response from server''"
    by blast
  from missing_breakdown_rejected [where food = "js ''Banana''" and p = "js ''Banana''"
      and e = "service 200 (Parsed JNull)" and r' = ?r' and d' = JNull and v = initial_view,
      THEN conjunct2, THEN conjunct1, THEN mp, OF h']
  have b: "error (run (handleQuickAnalysis (service 200 (Parsed JNull)) (js ''Banana''))
      initial_view) = js ''Invalid response from server''"
    by blast
  from missing_breakdown_rejected [where food = "js ''Banana''" and p = "js ''Banana''"
      and e = "service 200 (BodyRejected ?x)" and r' = ?s and x' = ?x and v = initial_view,
      THEN conjunct2, THEN conjunct2, THEN conjunct2, THEN mp, OF k, THEN conjunct2] m
  have c: "error (run (handleQuickAnalysis (service 200 (BodyRejected ?x)) (js ''Banana''))
      initial_view) = js ''Unexpected end of JSON input''"
    by simp
  from missing_breakdown_rejected [where v = ?v and q = "js ''Banana''"
      and e = "service 204 (BodyRejected (Exn SyntaxError []))" and r = ?s'
      and x = "Exn SyntaxError []",
      THEN conjunct2, THEN conjunct2, THEN conjunct1, THEN mp, OF k', THEN conjunct2]
  have d: "error (run (analyzeFood (service 204 (BodyRejected (Exn SyntaxError []))) ?v) ?v)
      = js ''Failed to analyze food. Please try again.''"
    by simp
  from a b c d show ?thesis by blast
qed

text \<open>
  A 200 response with an empty body: \<open>response.json()\<close> rejects with "Unexpected end
  of JSON input", and that text is shown, not the fixed message.
\<close>

lemma empty_body_run:
  "analyzeFood
     (service 200 (BodyRejected (Exn SyntaxError (js ''Unexpected end of JSON input''))))
     (initial_view\<lparr>foodItem := js ''Banana''\<rparr>) =
   [SetLoading True, SetError [], Fetch (js ''/api/analyze/Banana''),
    ConsoleError (Exn SyntaxError (js ''Unexpected end of JSON input'')),
    SetError (js ''Unexpected end of JSON input''), SetLoading False]"
proof -
  let ?v = "initial_view\<lparr>foodItem := js ''Banana''\<rparr>"
  let ?x = "Exn SyntaxError (js ''Unexpected end of JSON input'')"
  have u: "js ''/api/analyze/'' @ js ''Banana'' = js ''/api/analyze/Banana''"
    by (simp add: js_def)
  have m: "js ''Unexpected end of JSON input'' \<noteq> []" by (simp add: js_def)
  have n: "js ''Banana'' \<noteq> []" by (simp add: js_def)
  have "analyzeFood (service 200 (BodyRejected ?x)) ?v =
    [SetLoading True, SetError [], Fetch (js ''/api/analyze/'' @ js ''Banana''), ConsoleError ?x,
     SetError (if message ?x \<noteq> [] then message ?x
               else js ''Failed to analyze food. Please try again.''),
     SetLoading False]"
    by (rule analyzeFood_body_rejected [where r = "\<lparr>status = 200, body = BodyRejected ?x\<rparr>"])
      (simp_all add: trim_Banana encode_Banana n service_def ok_def)
  then show ?thesis by (simp add: u m)
qed

theorem unparseable_body_message:
  "error (run (analyzeFood
       (service 200 (BodyRejected (Exn SyntaxError (js ''Unexpected end of JSON input''))))
       (initial_view\<lparr>foodItem := js ''Banana''\<rparr>)) (initial_view\<lparr>foodItem := js ''Banana''\<rparr>))
     = js ''Unexpected end of JSON input'' \<and>
   js ''Unexpected end of JSON input'' \<noteq> js ''Invalid response from server''"
  by (simp add: empty_body_run run_def) (simp add: js_def)

text \<open>
  C6 (as the code has it). A response with a status outside 200..299 gives the
  templated message "Failed to analyze <query>. Please try again.", naming the query
  as the user typed it (for a quick analysis, the selection), whatever the body of the
  response holds: the body is not read. A transport failure gives the message of the
  rejection when that is non-empty, else the generic "Failed to analyze food. Please
  try again.", which names no food. In both cases the busy flag is false afterwards.
\<close>

theorem request_failure_message:
  "(trim (foodItem v) \<noteq> [] \<and> encodeURIComponent (trim (foodItem v)) = Some q \<and>
    fetch e (js ''/api/analyze/'' @ q) = Resolved r \<and> \<not> ok r \<longrightarrow>
      error (run (analyzeFood e v) v) =
        js ''Failed to analyze '' @ foodItem v @ js ''. Please try again.'' \<and>
      loading (run (analyzeFood e v) v) = False) \<and>
   (trim (foodItem v) \<noteq> [] \<and> encodeURIComponent (trim (foodItem v)) = Some q \<and>
    fetch e (js ''/api/analyze/'' @ q) = Rejected x \<longrightarrow>
      error (run (analyzeFood e v) v) =
        (if message x \<noteq> [] then message x
         else js ''Failed to analyze food. Please try again.'') \<and>
      loading (run (analyzeFood e v) v) = False) \<and>
   (encodeURIComponent (trim food) = Some p \<and>
    fetch e (js ''http://localhost:8000/api/analyze/'' @ p) = Resolved r' \<and> \<not> ok r' \<longrightarrow>
      error (run (handleQuickAnalysis e food) v) =
        js ''Failed to analyze '' @ food @ js ''. Please try again.'' \<and>
      loading (run (handleQuickAnalysis e food) v) = False) \<and>
   (encodeURIComponent (trim food) = Some p \<and>
    fetch e (js ''http://localhost:8000/api/analyze/'' @ p) = Rejected x' \<longrightarrow>
      error (run (handleQuickAnalysis e food) v) =
        (if message x' \<noteq> [] then message x'
         else js ''Failed to analyze food. Please try again.'') \<and>
      loading (run (handleQuickAnalysis e food) v) = False)"
proof (intro conjI impI)
  assume a: "trim (foodItem v) \<noteq> [] \<and> encodeURIComponent (trim (foodItem v)) = Some q \<and>
    fetch e (js ''/api/analyze/'' @ q) = Resolved r \<and> \<not> ok r"
  then have t: "analyzeFood e v =
    [SetLoading True, SetError [], Fetch (js ''/api/analyze/'' @ q),
     ConsoleError (Exn Error (js ''Failed to analyze '' @ foodItem v @ js ''. Please try again.'')),
     SetError (js ''Failed to analyze '' @ foodItem v @ js ''. Please try again.''),
     SetLoading False]"
    using analyzeFood_not_ok [of v q e r] by blast
  show "error (run (analyzeFood e v) v) =
      js ''Failed to analyze '' @ foodItem v @ js ''. Please try again.''"
    and "loading (run (analyzeFood e v) v) = False"
    unfolding t by (simp_all add: run_def)
next
  assume a: "trim (foodItem v) \<noteq> [] \<and> encodeURIComponent (trim (foodItem v)) = Some q \<and>
    fetch e (js ''/api/analyze/'' @ q) = Rejected x"
  then have t: "analyzeFood e v =
    [SetLoading True, SetError [], Fetch (js ''/api/analyze/'' @ q), ConsoleError x,
     SetError (if message x \<noteq> [] then message x
               else js ''Failed to analyze food. Please try again.''),
     SetLoading False]"
    using analyzeFood_rejected [of v q e x] by blast
  show "error (run (analyzeFood e v) v) =
      (if message x \<noteq> [] then message x else js ''Failed to analyze food. Please try again.'')"
    and "loading (run (analyzeFood e v) v) = False"
    unfolding t by (simp_all add: run_def)
next
  assume a: "encodeURIComponent (trim food) = Some p \<and>
    fetch e (js ''http://localhost:8000/api/analyze/'' @ p) = Resolved r' \<and> \<not> ok r'"
  then have t: "handleQuickAnalysis e food =
    [SetError [], SetFoodItem (toLowerCase e food), SetLoading True,
     Fetch (js ''http://localhost:8000/api/analyze/'' @ p),
     ConsoleError (Exn Error (js ''Failed to analyze '' @ food @ js ''. Please try again.'')),
     SetError (js ''Failed to analyze '' @ food @ js ''. Please try again.''),
     SetLoading False]"
    using handleQuickAnalysis_not_ok [of food p e r'] by blast
  show "error (run (handleQuickAnalysis e food) v) =
      js ''Failed to analyze '' @ food @ js ''. Please try again.''"
    and "loading (run (handleQuickAnalysis e food) v) = False"
    unfolding t by (simp_all add: run_def)
next
  assume a: "encodeURIComponent (trim food) = Some p \<and>
    fetch e (js ''http://localhost:8000/api/analyze/'' @ p) = Rejected x'"
  then have t: "handleQuickAnalysis e food =
    [SetError [], SetFoodItem (toLowerCase e food), SetLoading True,
     Fetch (js ''http://localhost:8000/api/analyze/'' @ p), ConsoleError x',
     SetError (if message x' \<noteq> [] then message x'
               else js ''Failed to analyze food. Please try again.''),
     SetLoading False]"
    using handleQuickAnalysis_rejected [of food p e x'] by blast
  show "error (run (handleQuickAnalysis e food) v) =
      (if message x' \<noteq> [] then message x'
       else js ''Failed to analyze food. Please try again.'')"
    and "loading (run (handleQuickAnalysis e food) v) = False"
    unfolding t by (simp_all add: run_def)
qed


theorem request_failure_message_witness:
  "error (run (analyzeFood (service 500 BodyPending) (initial_view\<lparr>foodItem := js ''pizza''\<rparr>))
       (initial_view\<lparr>foodItem := js ''pizza''\<rparr>))
     = js ''Failed to analyze '' @ js ''pizza'' @ js ''. Please try again.'' \<and>
   loading (run (analyzeFood (service 500 BodyPending) (initial_view\<lparr>foodItem := js ''pizza''\<rparr>))
       (initial_view\<lparr>foodItem := js ''pizza''\<rparr>)) = False \<and>
   error (run (analyzeFood (offline (js ''Failed to fetch''))
       (initial_view\<lparr>foodItem := js ''pizza''\<rparr>)) (initial_view\<lparr>foodItem := js ''pizza''\<rparr>))
     = js ''Failed to fetch'' \<and>
   error (run (handleQuickAnalysis (offline []) (js ''pizza'')) initial_view)
     = js ''Failed to analyze food. Please try again.''"
proof -
  let ?v = "initial_view\<lparr>foodItem := js ''pizza''\<rparr>"
  let ?r = "\<lparr>status = 500, body = BodyPending\<rparr>"
  have h1: "trim (foodItem ?v) \<noteq> [] \<and> encodeURIComponent (trim (foodItem ?v)) = Some (js ''pizza'') \<and>
    fetch (service 500 BodyPending) (js ''/api/analyze/'' @ js ''pizza'') = Resolved ?r \<and> \<not> ok ?r"
    by (simp add: trim_pizza encode_pizza pizza_nonempty service_def ok_def)
  have h2: "trim (foodItem ?v) \<noteq> [] \<and> encodeURIComponent (trim (foodItem ?v)) = Some (js ''pizza'') \<and>
    fetch (offline (js ''Failed to fetch'')) (js ''/api/analyze/'' @ js ''pizza'')
      = Rejected (Exn TypeError (js ''Failed to fetch''))"
    by (simp add: trim_pizza encode_pizza pizza_nonempty offline_def)
  have h3: "encodeURIComponent (trim (js ''pizza'')) = Some (js ''pizza'') \<and>
    fetch (offline []) (js ''http://localhost:8000/api/analyze/'' @ js ''pizza'')
      = Rejected (Exn TypeError [])"
    by (simp add: trim_pizza encode_pizza offline_def)
  have n: "js ''Failed to fetch'' \<noteq> []" by (simp add: js_def)
  from request_failure_message [where v = ?v and q = "js ''pizza''"
      and e = "service 500 BodyPending" and r = ?r, THEN conjunct1, THEN mp, OF h1]
  have a: "error (run (analyzeFood (service 500 BodyPending) ?v) ?v)
      = js ''Failed to analyze '' @ js ''pizza'' @ js ''. Please try again.'' \<and>
    loading (run (analyzeFood (service 500 BodyPending) ?v) ?v) = False"
    by simp
  from request_failure_message [where v = ?v and q = "js ''pizza''"
      and e = "offline (js ''Failed to fetch'')" and x = "Exn TypeError (js ''Failed to fetch'')",
      THEN conjunct2, THEN conjunct1, THEN mp, OF h2] n
  have b: "error (run (analyzeFood (offline (js ''Failed to fetch'')) ?v) ?v)
      = js ''Failed to fetch''"
    by simp
  from request_failure_message [where food = "js ''pizza''" and p = "js ''pizza''"
      and e = "offline []" and x' = "Exn TypeError []" and v = initial_view,
      THEN conjunct2, THEN conjunct2, THEN conjunct2, THEN mp, OF h3]
  have c: "error (run (handleQuickAnalysis (offline []) (js ''pizza'')) initial_view)
      = js ''Failed to analyze food. Please try again.''"
    by simp
  from a b c show ?thesis by blast
qed

text \<open>
  A 404 response that carries the detail "Food not found" is reported with the
  templated message, not with the detail.
\<close>

lemma pizza_not_found_run:
  "analyzeFood (service 404 (Parsed (JObj [(js ''detail'', JStr (js ''Food not found''))])))
     (initial_view\<lparr>foodItem := js ''pizza''\<rparr>) =
   [SetLoading True, SetError [], Fetch (js ''/api/analyze/pizza''),
    ConsoleError (Exn Error (js ''Failed to analyze pizza. Please try again.'')),
    SetError (js ''Failed to analyze pizza. Please try again.''), SetLoading False]"
proof -
  let ?v = "initial_view\<lparr>foodItem := js ''pizza''\<rparr>"
  let ?b = "Parsed (JObj [(js ''detail'', JStr (js ''Food not found''))])"
  have u: "js ''/api/analyze/'' @ js ''pizza'' = js ''/api/analyze/pizza''"
    by (simp add: js_def)
  have m: "js ''Failed to analyze '' @ js ''pizza'' @ js ''. Please try again.'' =
      js ''Failed to analyze pizza. Please try again.''"
    by (simp add: js_def)
  have "analyzeFood (service 404 ?b) ?v =
    [SetLoading True, SetError [], Fetch (js ''/api/analyze/'' @ js ''pizza''),
     ConsoleError (Exn Error (js ''Failed to analyze '' @ foodItem ?v @ js ''. Please try again.'')),
     SetError (js ''Failed to analyze '' @ foodItem ?v @ js ''. Please try again.''),
     SetLoading False]"
    by (rule analyzeFood_not_ok [where r = "\<lparr>status = 404, body = ?b\<rparr>"])
      (simp_all add: trim_pizza encode_pizza pizza_nonempty service_def ok_def)
  then show ?thesis by (simp add: u m)
qed

theorem server_detail_not_surfaced:
  "error (run (analyzeFood
       (service 404 (Parsed (JObj [(js ''detail'', JStr (js ''Food not found''))])))
       (initial_view\<lparr>foodItem := js ''pizza''\<rparr>)) (initial_view\<lparr>foodItem := js ''pizza''\<rparr>))
     = js ''Failed to analyze pizza. Please try again.'' \<and>
   js ''Failed to analyze pizza. Please try again.'' \<noteq> js ''Food not found''"
  by (simp add: pizza_not_found_run run_def) (simp add: js_def)


lemma pending_stays_busy:
  assumes "trim (foodItem v) \<noteq> []" "encodeURIComponent (trim (foodItem v)) = Some q"
    "fetch e (js ''/api/analyze/'' @ q) = Pending"
  shows "loading (run (analyzeFood e v) v) = True"
  by (simp add: analyzeFood_pending [OF assms] run_def)

subsection \<open>The request target\<close>


lemma handleQuickAnalysis_fetches:
  "filter is_fetch (handleQuickAnalysis e food) =
     (case encodeURIComponent (trim food) of
        None \<Rightarrow> []
      | Some q \<Rightarrow> [Fetch (js ''http://localhost:8000/api/analyze/'' @ q)])"
  by (simp add: handleQuickAnalysis_def handleQuickAnalysis_try_def catch_finally_def Let_def
      split: option.splits fetch_result.splits body_result.splits)

















subsection \<open>Quick analysis\<close>


lemma handleQuickAnalysis_prefix:
  "take 3 (handleQuickAnalysis e food) =
     [SetError [], SetFoodItem (toLowerCase e food), SetLoading True]"
  by (simp add: handleQuickAnalysis_def)



lemma suggestions_trimmed: "\<forall>food \<in> set quickSuggestions. trim food = food"
  by (simp add: quickSuggestions_def trim_def is_white_def js_def)



lemma suggestions_nonempty: "\<forall>food \<in> set quickSuggestions. food \<noteq> []"
  by (simp add: quickSuggestions_def js_def)









text \<open>
  C10 (as the code has it). \<open>handleQuickAnalysis\<close> has no validation branch: every run
  starts by entering the busy state and is never the validation run of \<open>analyzeFood\<close>.
  For every input whose trimmed form has no unpaired surrogate, whitespace-only inputs
  included, it dispatches exactly one request; for an unpaired surrogate the URL
  escaping throws, nothing is dispatched and the URIError is reported by the
  \<open>catch\<close> block. Each of the eight suggestions has a non-empty trimmed name.
\<close>

theorem quick_analysis_unvalidated:
  "take 3 (handleQuickAnalysis e food) =
     [SetError [], SetFoodItem (toLowerCase e food), SetLoading True] \<and>
   handleQuickAnalysis e food \<noteq> [SetError (js ''Please enter a food item'')] \<and>
   (well_formed (trim food) \<longrightarrow>
      (\<exists>q. encodeURIComponent (trim food) = Some q \<and>
         filter is_fetch (handleQuickAnalysis e food) =
           [Fetch (js ''http://localhost:8000/api/analyze/'' @ q)])) \<and>
   ((\<forall>c \<in> set food. is_white c) \<longrightarrow>
      filter is_fetch (handleQuickAnalysis e food) =
        [Fetch (js ''http://localhost:8000/api/analyze/'')]) \<and>
   (\<not> well_formed (trim food) \<longrightarrow>
      handleQuickAnalysis e food =
        [SetError [], SetFoodItem (toLowerCase e food), SetLoading True,
         ConsoleError (Exn URIError (uri_error_message e)),
         SetError (if uri_error_message e \<noteq> [] then uri_error_message e
                   else js ''Failed to analyze food. Please try again.''),
         SetLoading False]) \<and>
   (\<forall>s \<in> set quickSuggestions. trim s \<noteq> []) \<and>
   length quickSuggestions = 8"
proof (intro conjI impI)
  show "take 3 (handleQuickAnalysis e food) =
     [SetError [], SetFoodItem (toLowerCase e food), SetLoading True]"
    by (rule handleQuickAnalysis_prefix)
  show "handleQuickAnalysis e food \<noteq> [SetError (js ''Please enter a food item'')]"
    by (simp add: handleQuickAnalysis_def)
  show "\<forall>s \<in> set quickSuggestions. trim s \<noteq> []"
    using suggestions_trimmed suggestions_nonempty by simp
  show "length quickSuggestions = 8"
    by (simp add: quickSuggestions_def)
next
  assume "well_formed (trim food)"
  then obtain q where "encodeURIComponent (trim food) = Some q"
    using encode_defined_iff [of "trim food"] by auto
  then show "\<exists>q. encodeURIComponent (trim food) = Some q \<and>
         filter is_fetch (handleQuickAnalysis e food) =
           [Fetch (js ''http://localhost:8000/api/analyze/'' @ q)]"
    by (simp add: handleQuickAnalysis_fetches)
next
  assume "\<forall>c \<in> set food. is_white c"
  then have "trim food = []" by (simp add: trim_Nil_iff)
  then show "filter is_fetch (handleQuickAnalysis e food) =
        [Fetch (js ''http://localhost:8000/api/analyze/'')]"
    by (simp add: handleQuickAnalysis_fetches)
next
  assume "\<not> well_formed (trim food)"
  then have "encodeURIComponent (trim food) = None"
    using encode_defined_iff [of "trim food"] by simp
  then show "handleQuickAnalysis e food =
        [SetError [], SetFoodItem (toLowerCase e food), SetLoading True,
         ConsoleError (Exn URIError (uri_error_message e)),
         SetError (if uri_error_message e \<noteq> [] then uri_error_message e
                   else js ''Failed to analyze food. Please try again.''),
         SetLoading False]"
    by (rule handleQuickAnalysis_uri_error)
qed

theorem quick_analysis_unvalidated_witness:
  "filter is_fetch (handleQuickAnalysis (service 200 (Parsed banana)) (js ''   '')) =
     [Fetch (js ''http://localhost:8000/api/analyze/'')] \<and>
   filter is_fetch (handleQuickAnalysis (service 200 (Parsed banana)) []) =
     [Fetch (js ''http://localhost:8000/api/analyze/'')] \<and>
   trim (js ''Sweet Potato'') \<noteq> []"
proof -
  have w: "\<forall>c \<in> set (js ''   ''). is_white c" by (simp add: js_def is_white_def)
  have w': "\<forall>c \<in> set ([] :: jsstring). is_white c" by simp
  have m: "js ''Sweet Potato'' \<in> set quickSuggestions" by (simp add: quickSuggestions_def)
  note t = quick_analysis_unvalidated [where e = "service 200 (Parsed banana)"]
  from t [where food = "js ''   ''", THEN conjunct2, THEN conjunct2, THEN conjunct2,
      THEN conjunct1, THEN mp, OF w]
  have a: "filter is_fetch (handleQuickAnalysis (service 200 (Parsed banana)) (js ''   '')) =
     [Fetch (js ''http://localhost:8000/api/analyze/'')]" .
  from t [where food = "[]", THEN conjunct2, THEN conjunct2, THEN conjunct2,
      THEN conjunct1, THEN mp, OF w']
  have b: "filter is_fetch (handleQuickAnalysis (service 200 (Parsed banana)) []) =
     [Fetch (js ''http://localhost:8000/api/analyze/'')]" .
  from t [where food = "[]", THEN conjunct2, THEN conjunct2, THEN conjunct2,
      THEN conjunct2, THEN conjunct2, THEN conjunct1, THEN bspec, OF m]
  have c: "trim (js ''Sweet Potato'') \<noteq> []" .
  from a b c show ?thesis by blast
qed

theorem unpaired_surrogate_not_dispatched:
  "filter is_fetch (handleQuickAnalysis (service 200 (Parsed banana)) [0xD800]) = [] \<and>
   handleQuickAnalysis (service 200 (Parsed banana)) [0xD800] =
     [SetError [], SetFoodItem [0xD800], SetLoading True,
      ConsoleError (Exn URIError (js ''URI malformed'')),
      SetError (js ''URI malformed''), SetLoading False]"
proof -
  have t: "trim [0xD800] = [0xD800]" by (simp add: trim_def is_white_def)
  have n: "encodeURIComponent [0xD800] = None"
    by (simp add: uri_unescaped_def is_trail_def is_lead_def)
  have n': "encodeURIComponent (trim [0xD800]) = None"
    by (simp only: t n)
  have l: "toLowerCase (service 200 (Parsed banana)) [0xD800] = [0xD800]"
    by (simp add: toLowerCase_def is_ascii_def service_def)
  have m: "uri_error_message (service 200 (Parsed banana)) = js ''URI malformed''"
    "js ''URI malformed'' \<noteq> []"
    by (simp_all add: service_def js_def)
  have "handleQuickAnalysis (service 200 (Parsed banana)) [0xD800] =
     [SetError [], SetFoodItem [0xD800], SetLoading True,
      ConsoleError (Exn URIError (js ''URI malformed'')),
      SetError (js ''URI malformed''), SetLoading False]"
    using handleQuickAnalysis_uri_error [OF n', of "service 200 (Parsed banana)"]
    by (simp add: l m)
  then show ?thesis by simp
qed

end
